theory Spec2Isabelle
  imports Complex_Main "HOL-Library.Char_ord"
begin

section \<open>JavaScript numbers\<close>

text \<open>
  The calculator of \<^verbatim>\<open>src/pages/CarbonCalculator.tsx\<close> computes with JavaScript numbers.
  A number is modelled as a real, or one of the three special values. Arithmetic on
  finite numbers is exact: the sum, product or quotient is the real result, without the
  rounding, the overflow to an infinity or the underflow to 0 of the double format, and
  without a negative zero. The parsers do apply the format to what they read:
  \<^verbatim>\<open>parseInt\<close> rounds an integer to 53 significant bits, and both parsers give an
  infinity from the overflow boundary on. The special values follow the IEEE/ECMAScript
  tables: \<open>NaN\<close> is absorbing and compares false with everything, \<open>0 * Infinity\<close> and
  \<open>Infinity - Infinity\<close> are \<open>NaN\<close>. A property that states the value of a computed
  number is a property of this exact arithmetic.
\<close>

datatype jsnum = Fin real | PInf | NInf | NaN

instantiation jsnum :: "{plus, uminus, minus, times, inverse, ord}"
begin

fun plus_jsnum :: "jsnum \<Rightarrow> jsnum \<Rightarrow> jsnum" where
  "plus_jsnum NaN _ = NaN"
| "plus_jsnum _ NaN = NaN"
| "plus_jsnum (Fin a) (Fin b) = Fin (a + b)"
| "plus_jsnum PInf NInf = NaN"
| "plus_jsnum NInf PInf = NaN"
| "plus_jsnum PInf _ = PInf"
| "plus_jsnum _ PInf = PInf"
| "plus_jsnum NInf _ = NInf"
| "plus_jsnum _ NInf = NInf"

fun uminus_jsnum :: "jsnum \<Rightarrow> jsnum" where
  "uminus_jsnum (Fin a) = Fin (- a)"
| "uminus_jsnum PInf = NInf"
| "uminus_jsnum NInf = PInf"
| "uminus_jsnum NaN = NaN"

definition minus_jsnum :: "jsnum \<Rightarrow> jsnum \<Rightarrow> jsnum" where
  "minus_jsnum x y = x + (- y)"

fun times_jsnum :: "jsnum \<Rightarrow> jsnum \<Rightarrow> jsnum" where
  "times_jsnum NaN _ = NaN"
| "times_jsnum _ NaN = NaN"
| "times_jsnum (Fin a) (Fin b) = Fin (a * b)"
| "times_jsnum (Fin a) PInf = (if a = 0 then NaN else if 0 < a then PInf else NInf)"
| "times_jsnum (Fin a) NInf = (if a = 0 then NaN else if 0 < a then NInf else PInf)"
| "times_jsnum PInf (Fin b) = (if b = 0 then NaN else if 0 < b then PInf else NInf)"
| "times_jsnum NInf (Fin b) = (if b = 0 then NaN else if 0 < b then NInf else PInf)"
| "times_jsnum PInf PInf = PInf"
| "times_jsnum PInf NInf = NInf"
| "times_jsnum NInf PInf = NInf"
| "times_jsnum NInf NInf = PInf"

fun divide_jsnum :: "jsnum \<Rightarrow> jsnum \<Rightarrow> jsnum" where
  "divide_jsnum NaN _ = NaN"
| "divide_jsnum _ NaN = NaN"
| "divide_jsnum (Fin a) (Fin b) =
     (if b = 0 then (if a = 0 then NaN else if 0 < a then PInf else NInf) else Fin (a / b))"
| "divide_jsnum (Fin a) _ = Fin 0"
| "divide_jsnum PInf (Fin b) = (if 0 \<le> b then PInf else NInf)"
| "divide_jsnum NInf (Fin b) = (if 0 \<le> b then NInf else PInf)"
| "divide_jsnum _ _ = NaN"

definition inverse_jsnum :: "jsnum \<Rightarrow> jsnum" where
  "inverse_jsnum x = divide (Fin 1) (x::jsnum)"

fun less_eq_jsnum :: "jsnum \<Rightarrow> jsnum \<Rightarrow> bool" where
  "less_eq_jsnum NaN _ = False"
| "less_eq_jsnum _ NaN = False"
| "less_eq_jsnum (Fin a) (Fin b) = (a \<le> b)"
| "less_eq_jsnum NInf _ = True"
| "less_eq_jsnum _ PInf = True"
| "less_eq_jsnum _ _ = False"

fun less_jsnum :: "jsnum \<Rightarrow> jsnum \<Rightarrow> bool" where
  "less_jsnum NaN _ = False"
| "less_jsnum _ NaN = False"
| "less_jsnum (Fin a) (Fin b) = (a < b)"
| "less_jsnum NInf NInf = False"
| "less_jsnum PInf PInf = False"
| "less_jsnum NInf _ = True"
| "less_jsnum _ PInf = True"
| "less_jsnum _ _ = False"

instance ..

end

text \<open>\<^verbatim>\<open>isNaN\<close>, \<^verbatim>\<open>isFinite\<close>, and the truthiness of a number (\<^verbatim>\<open>!x\<close> holds of 0 and NaN).\<close>

fun isNaN :: "jsnum \<Rightarrow> bool" where
  "isNaN NaN = True"
| "isNaN _ = False"

fun isFinite :: "jsnum \<Rightarrow> bool" where
  "isFinite (Fin _) = True"
| "isFinite _ = False"

fun truthy :: "jsnum \<Rightarrow> bool" where
  "truthy NaN = False"
| "truthy (Fin a) = (a \<noteq> 0)"
| "truthy _ = True"

text \<open>\<^verbatim>\<open>a || b\<close> on numbers, and \<^verbatim>\<open>a === b\<close>.\<close>

definition orElse :: "jsnum \<Rightarrow> jsnum \<Rightarrow> jsnum" where
  "orElse a b = (if truthy a then a else b)"

definition strictEq :: "jsnum \<Rightarrow> jsnum \<Rightarrow> bool" where
  "strictEq a b = (\<not> isNaN a \<and> a = b)"

fun Math_max :: "jsnum \<Rightarrow> jsnum \<Rightarrow> jsnum" where
  "Math_max NaN _ = NaN"
| "Math_max _ NaN = NaN"
| "Math_max a b = (if a \<le> b then b else a)"

fun Math_min :: "jsnum \<Rightarrow> jsnum \<Rightarrow> jsnum" where
  "Math_min NaN _ = NaN"
| "Math_min _ NaN = NaN"
| "Math_min a b = (if a \<le> b then a else b)"

fun Math_exp :: "jsnum \<Rightarrow> jsnum" where
  "Math_exp (Fin x) = Fin (exp x)"
| "Math_exp PInf = PInf"
| "Math_exp NInf = Fin 0"
| "Math_exp NaN = NaN"

fun Math_log :: "jsnum \<Rightarrow> jsnum" where
  "Math_log (Fin x) = (if 0 < x then Fin (ln x) else if x = 0 then NInf else NaN)"
| "Math_log PInf = PInf"
| "Math_log NInf = NaN"
| "Math_log NaN = NaN"

text \<open>
  \<^verbatim>\<open>Math.pow(base, exponent)\<close>, after the table of Number::exponentiate: a zero exponent
  gives 1 even for a NaN base; a negative base with a fractional exponent gives NaN.
\<close>

definition isInteger :: "real \<Rightarrow> bool" where
  "isInteger y = (y = of_int \<lfloor>y\<rfloor>)"

definition powFinite :: "real \<Rightarrow> real \<Rightarrow> jsnum" where
  "powFinite x y =
     (if x = 0 then (if 0 < y then Fin 0 else PInf)
      else if isInteger y then
        (if 0 \<le> y then Fin (x ^ nat \<lfloor>y\<rfloor>) else Fin (1 / x ^ nat (- \<lfloor>y\<rfloor>)))
      else if x < 0 then NaN
      else Fin (x powr y))"

fun Math_pow :: "jsnum \<Rightarrow> jsnum \<Rightarrow> jsnum" where
  "Math_pow _ NaN = NaN"
| "Math_pow b (Fin y) =
     (if y = 0 then Fin 1
      else case b of
        NaN \<Rightarrow> NaN
      | PInf \<Rightarrow> (if 0 < y then PInf else Fin 0)
      | NInf \<Rightarrow> (if 0 < y then (if isInteger y \<and> odd \<lfloor>y\<rfloor> then NInf else PInf) else Fin 0)
      | Fin x \<Rightarrow> powFinite x y)"
| "Math_pow b PInf =
     (case b of
        NaN \<Rightarrow> NaN
      | Fin x \<Rightarrow> (if 1 < \<bar>x\<bar> then PInf else if \<bar>x\<bar> = 1 then NaN else Fin 0)
      | _ \<Rightarrow> PInf)"
| "Math_pow b NInf =
     (case b of
        NaN \<Rightarrow> NaN
      | Fin x \<Rightarrow> (if 1 < \<bar>x\<bar> then Fin 0 else if \<bar>x\<bar> = 1 then NaN else PInf)
      | _ \<Rightarrow> Fin 0)"

section \<open>Helpers of the calculator\<close>

datatype RegionType = Dry | Moist

text \<open>
  \<^verbatim>\<open>if (!D_cm || isNaN(D_cm) || D_cm <= 0) return 0;\<close>
  \<^verbatim>\<open>return region === 'dry' ? exp(-1.996 + 2.32 * ln(D_cm)) : exp(-2.134 + 2.530 * ln(D_cm));\<close>
\<close>

definition defaultAllometryBiomassKg :: "jsnum \<Rightarrow> RegionType \<Rightarrow> jsnum" where
  "defaultAllometryBiomassKg D_cm region =
     (if \<not> truthy D_cm \<or> isNaN D_cm \<or> D_cm \<le> Fin 0 then Fin 0
      else if region = Dry then Math_exp (Fin (- 1.996) + Fin 2.32 * Math_log D_cm)
      else Math_exp (Fin (- 2.134) + Fin 2.530 * Math_log D_cm))"

definition kgBiomassToTonsCO2e :: "jsnum \<Rightarrow> jsnum" where
  "kgBiomassToTonsCO2e biomassKg = (biomassKg * Fin 0.47 * (Fin 44 / Fin 12)) / Fin 1000"

definition densityFromSpacing :: "jsnum \<Rightarrow> jsnum" where
  "densityFromSpacing spacingMeters =
     (if \<not> truthy spacingMeters \<or> spacingMeters \<le> Fin 0 then Fin 0
      else Fin 10000 / (spacingMeters * spacingMeters))"

definition clamp :: "jsnum \<Rightarrow> jsnum \<Rightarrow> jsnum \<Rightarrow> jsnum" where
  "clamp n lo hi = Math_max lo (Math_min hi n)"


section \<open>Strings and the parsing built-ins\<close>

text \<open>
  A string is a list of characters with codes below 256. White space is what
  \<^verbatim>\<open>trim\<close>, the class \<^verbatim>\<open>\s\<close> and the parsers skip: TAB, LF, VT, FF, CR, space and
  the no-break space.
\<close>

definition isWhiteSpace :: "char \<Rightarrow> bool" where
  "isWhiteSpace c =
     (c \<in> set [CHR 0x09, CHR 0x0A, CHR 0x0B, CHR 0x0C, CHR 0x0D, CHR 0x20, CHR 0xA0])"

definition isDigit :: "char \<Rightarrow> bool" where
  "isDigit c = (CHR ''0'' \<le> c \<and> c \<le> CHR ''9'')"

definition digitValue :: "char \<Rightarrow> nat" where
  "digitValue c = of_char c - 48"

definition digitsValue :: "string \<Rightarrow> nat" where
  "digitsValue ds = foldl (\<lambda>a c. 10 * a + digitValue c) 0 ds"

text \<open>\<^verbatim>\<open>s || d\<close> on a string, and on an optional field (\<^verbatim>\<open>undefined\<close> is \<open>None\<close>).\<close>

definition strOr :: "string \<Rightarrow> string \<Rightarrow> string" where
  "strOr s d = (if s = [] then d else s)"

definition optOr :: "string option \<Rightarrow> string \<Rightarrow> string" where
  "optOr s d = (case s of None \<Rightarrow> d | Some t \<Rightarrow> strOr t d)"

definition trim :: "string \<Rightarrow> string" where
  "trim s = rev (dropWhile isWhiteSpace (rev (dropWhile isWhiteSpace s)))"

definition splitSign :: "string \<Rightarrow> bool \<times> string" where
  "splitSign s =
     (case s of
        [] \<Rightarrow> (False, [])
      | c # cs \<Rightarrow>
          if c = CHR ''-'' then (True, cs)
          else if c = CHR ''+'' then (False, cs)
          else (False, s))"

definition exponentPart :: "string \<Rightarrow> int" where
  "exponentPart s =
     (case s of
        [] \<Rightarrow> 0
      | c # cs \<Rightarrow>
          if c = CHR ''e'' \<or> c = CHR ''E'' then
            (let (neg, ds) = splitSign cs; digits = takeWhile isDigit ds
             in if digits = [] then 0
                else if neg then - int (digitsValue digits)
                else int (digitsValue digits))
          else 0)"

definition scale10 :: "real \<Rightarrow> int \<Rightarrow> real" where
  "scale10 m e = (if 0 \<le> e then m * 10 ^ nat e else m / 10 ^ nat (- e))"

text \<open>
  The Number value of a decimal literal: a literal at or beyond the rounding boundary
  \<open>2^1024 - 2^970\<close> of the double format is an infinity, a literal at or below half the
  smallest double, \<open>2^-1075\<close>, is 0; between the two the value is kept exact.
\<close>

definition toNumber :: "real \<Rightarrow> jsnum" where
  "toNumber v =
     (if 2 ^ 1024 - 2 ^ 970 \<le> v then PInf
      else if v \<le> - (2 ^ 1024 - 2 ^ 970) then NInf
      else if \<bar>v\<bar> \<le> 1 / 2 ^ 1075 then Fin 0
      else Fin v)"

text \<open>
  \<^verbatim>\<open>parseFloat\<close>: skip leading white space, read the longest prefix that is a decimal
  literal (sign, \<^verbatim>\<open>Infinity\<close>, or digits with an optional fraction and exponent), and
  give NaN when there is none.
\<close>

definition parseFloat :: "string \<Rightarrow> jsnum" where
  "parseFloat inputString =
     (let (neg, rest) = splitSign (dropWhile isWhiteSpace inputString)
      in if take 8 rest = ''Infinity'' then (if neg then NInf else PInf)
         else
           let intDigits = takeWhile isDigit rest;
               afterInt = dropWhile isDigit rest;
               hasDot = (afterInt \<noteq> [] \<and> hd afterInt = CHR ''.'');
               fracDigits = (if hasDot then takeWhile isDigit (tl afterInt) else []);
               afterFrac = (if hasDot then dropWhile isDigit (tl afterInt) else afterInt)
           in if intDigits = [] \<and> fracDigits = [] then NaN
              else
                let mantissa = real (digitsValue intDigits)
                      + real (digitsValue fracDigits) / 10 ^ length fracDigits;
                    v = scale10 mantissa (exponentPart afterFrac)
                in toNumber (if neg then - v else v))"

text \<open>
  The Number value of an integer: the nearest number with at most 53 significant bits,
  ties to the even significand, and an infinity at or beyond the rounding boundary.
\<close>

fun bitLength :: "nat \<Rightarrow> nat" where
  "bitLength n = (if n = 0 then 0 else Suc (bitLength (n div 2)))"

declare bitLength.simps [simp del]

definition roundNat :: "nat \<Rightarrow> nat" where
  "roundNat n =
     (if n < 2 ^ 53 then n
      else
        let k = bitLength n - 53; q = n div 2 ^ k; r = n mod 2 ^ k
        in if 2 * r < 2 ^ k \<or> (2 * r = 2 ^ k \<and> even q) then q * 2 ^ k
           else (q + 1) * 2 ^ k)"

definition natToNumber :: "bool \<Rightarrow> nat \<Rightarrow> jsnum" where
  "natToNumber neg n =
     (if 2 ^ 1024 - 2 ^ 970 \<le> n then (if neg then NInf else PInf)
      else Fin (if neg then - real (roundNat n) else real (roundNat n)))"

text \<open>
  \<^verbatim>\<open>parseInt(s, 10)\<close>: skip leading white space, read a sign and the leading digits;
  NaN when there is no digit, else the Number value of the integer read.
\<close>

definition parseInt :: "string \<Rightarrow> jsnum" where
  "parseInt inputString =
     (let (neg, rest) = splitSign (dropWhile isWhiteSpace inputString);
          Z = takeWhile isDigit rest
      in if Z = [] then NaN else natToNumber neg (digitsValue Z))"

section \<open>The guarded evaluator of custom biomass equations\<close>

definition lowerAscii :: "char \<Rightarrow> char" where
  "lowerAscii c =
     (case map_of (zip ''ABCDEFGHIJKLMNOPQRSTUVWXYZ'' ''abcdefghijklmnopqrstuvwxyz'') c of
        Some l \<Rightarrow> l
      | None \<Rightarrow> c)"

text \<open>The character class of \<^verbatim>\<open>/^[0-9+\-*/().,\sDdepxowlnqrtmacs]*$/i\<close>.\<close>

definition allowedChar :: "char \<Rightarrow> bool" where
  "allowedChar c =
     (isDigit c \<or> c \<in> set ''+-*/().,'' \<or> isWhiteSpace c
      \<or> lowerAscii c \<in> set ''ddepxowlnqrtmacs'')"

definition allowed :: "string \<Rightarrow> bool" where
  "allowed expr = list_all allowedChar expr"

text \<open>
  \<open>matchCI p s\<close>: the pattern \<open>p\<close> (given in lower case) matches a prefix of \<open>s\<close>
  without regard to the case of ASCII letters; the result is what follows the match.
\<close>

fun matchCI :: "string \<Rightarrow> string \<Rightarrow> string option" where
  "matchCI [] s = Some s"
| "matchCI (p # ps) [] = None"
| "matchCI (p # ps) (c # cs) = (if lowerAscii c = p then matchCI ps cs else None)"

text \<open>A match of \<^verbatim>\<open>/name\s*\(/i\<close> at the start of \<open>s\<close>.\<close>

definition matchCall :: "string \<Rightarrow> string \<Rightarrow> string option" where
  "matchCall name s =
     (case matchCI name s of
        None \<Rightarrow> None
      | Some r \<Rightarrow>
          (case dropWhile isWhiteSpace r of
             [] \<Rightarrow> None
           | c # cs \<Rightarrow> if c = CHR ''('' then Some cs else None))"

lemma matchCI_length: "matchCI p s = Some r \<Longrightarrow> length r \<le> length s"
  by (induction p s rule: matchCI.induct) (auto split: if_splits)

lemma matchCall_length: "matchCall name s = Some r \<Longrightarrow> length r < length s"
proof -
  assume m: "matchCall name s = Some r"
  then obtain t where t: "matchCI name s = Some t"
    by (auto simp: matchCall_def split: option.splits)
  with m have "dropWhile isWhiteSpace t = CHR ''('' # r"
    by (auto simp: matchCall_def split: list.splits if_splits)
  then have "length r < length (dropWhile isWhiteSpace t)"
    by simp
  also have "\<dots> \<le> length t"
    by (rule length_dropWhile_le)
  also have "\<dots> \<le> length s"
    using t by (rule matchCI_length)
  finally show ?thesis .
qed

text \<open>\<^verbatim>\<open>.replace(/name\s*\(/gi, repl)\<close>: every match, left to right, is replaced.\<close>

function replaceCall :: "string \<Rightarrow> string \<Rightarrow> string \<Rightarrow> string" where
  "replaceCall name repl [] = []"
| "replaceCall name repl (c # cs) =
     (case matchCall name (c # cs) of
        Some r \<Rightarrow> repl @ replaceCall name repl r
      | None \<Rightarrow> c # replaceCall name repl cs)"
  by pat_completeness auto
termination
  by (relation "measure (\<lambda>(name, repl, s). length s)") (auto dest: matchCall_length)

definition isWordChar :: "char \<Rightarrow> bool" where
  "isWordChar c =
     (isDigit c \<or> (CHR ''a'' \<le> c \<and> c \<le> CHR ''z'') \<or> (CHR ''A'' \<le> c \<and> c \<le> CHR ''Z'')
      \<or> c = CHR ''_'')"

text \<open>
  \<^verbatim>\<open>.replace(/\bD\b/g, '(D)')\<close>: an upper-case D with no word character on either side.
  The flag says whether the character before the current position is a word character.
\<close>

fun replaceD :: "bool \<Rightarrow> string \<Rightarrow> string" where
  "replaceD prevWord [] = []"
| "replaceD prevWord (c # cs) =
     (if c = CHR ''D'' \<and> \<not> prevWord \<and> (case cs of [] \<Rightarrow> True | d # _ \<Rightarrow> \<not> isWordChar d)
      then ''(D)'' @ replaceD True cs
      else c # replaceD (isWordChar c) cs)"

text \<open>The last guard: \<^verbatim>\<open>/(constructor|__proto__|prototype|=>|new\s)/i.test(expr)\<close>.\<close>

definition blockedAt :: "string \<Rightarrow> bool" where
  "blockedAt s =
     (matchCI ''constructor'' s \<noteq> None \<or> matchCI ''__proto__'' s \<noteq> None
      \<or> matchCI ''prototype'' s \<noteq> None \<or> matchCI ''=>'' s \<noteq> None
      \<or> (case matchCI ''new'' s of Some (c # _) \<Rightarrow> isWhiteSpace c | _ \<Rightarrow> False))"

fun blocked :: "string \<Rightarrow> bool" where
  "blocked [] = False"
| "blocked (c # cs) = (blockedAt (c # cs) \<or> blocked cs)"

text \<open>The six function-name replacements, then the replacement of the variable.\<close>

definition rewriteExpr :: "string \<Rightarrow> string" where
  "rewriteExpr expr =
     replaceD False
       (replaceCall ''max'' ''Math.max(''
         (replaceCall ''min'' ''Math.min(''
           (replaceCall ''pow'' ''Math.pow(''
             (replaceCall ''sqrt'' ''Math.sqrt(''
               (replaceCall ''exp'' ''Math.exp(''
                 (replaceCall ''ln'' ''Math.log('' expr))))))"

text \<open>
  \<^verbatim>\<open>new Function('D', `return (${expr});`)\<close> followed by \<^verbatim>\<open>fn(D)\<close> is the JavaScript
  engine's work. It is a parameter of the model: given the body and the argument it
  either throws (a syntax error when the function is built, an exception when it runs)
  or returns a value, a number or a value of another type. The engine is taken to
  answer, and to answer alike when asked alike.
\<close>

datatype jsvalue = JSNumber jsnum | JSOther

datatype jsoutcome = Throws | Returns jsvalue

type_synonym jsengine = "string \<Rightarrow> jsnum \<Rightarrow> jsoutcome"

definition evalBiomassExpr :: "jsengine \<Rightarrow> jsnum \<Rightarrow> string \<Rightarrow> jsnum" where
  "evalBiomassExpr newFunction D exprRaw =
     (if exprRaw = [] then NaN
      else
        let expr = trim exprRaw
        in if \<not> allowed expr then NaN
           else
             let expr' = rewriteExpr expr
             in if blocked expr' then NaN
                else
                  (case newFunction (''return ('' @ expr' @ '');'') D of
                     Throws \<Rightarrow> NaN
                   | Returns (JSNumber val) \<Rightarrow> if \<not> isFinite val then NaN else val
                   | Returns JSOther \<Rightarrow> NaN))"


section \<open>The state of the calculator page\<close>

text \<open>
  The records follow the interfaces and the state hooks of the component. Field names
  carry a short prefix (\<open>r_\<close>, \<open>sp_\<close>, \<open>ps_\<close>, \<open>yr_\<close>, \<open>ss_\<close>, \<open>sr_\<close>, \<open>sch_\<close>) because several
  records share the names \<open>id\<close>, \<open>name\<close>, \<open>year\<close> and \<open>credits\<close>. An optional field
  (\<^verbatim>\<open>spacing?: string\<close>) is an option.
\<close>

datatype DensityMode = Spacing | Density

datatype ScheduleMode = Constant | Custom

datatype YesNo = Yes | No

record SpeciesRow =
  r_id :: string
  r_name :: string
  r_region :: RegionType
  r_percent :: string
  r_inputMode :: DensityMode
  r_spacing :: "string option"
  r_density :: "string option"
  r_growthRateCmYr :: "string option"
  r_initialDbhCm :: "string option"
  r_useCustomEq :: "bool option"
  r_customEquation :: "string option"

record ScheduleRow =
  sr_year :: jsnum
  sr_areaHa :: string

record PerSpecies =
  ps_speciesId :: string
  ps_name :: string
  ps_credits :: jsnum
  ps_biomassKg :: jsnum
  ps_survivingTrees :: jsnum
  ps_dbhCm :: jsnum

record YearRecord =
  yr_year :: jsnum
  yr_credits :: jsnum
  yr_biomassKg :: jsnum
  yr_survivingTrees :: jsnum
  yr_perSpecies :: "PerSpecies list"

record SummaryRow =
  ss_speciesId :: string
  ss_name :: string
  ss_totalCredits :: jsnum

record CalcResult =
  totalCredits :: jsnum
  yearlyBreakdown :: "YearRecord list"
  speciesSummary :: "SummaryRow list"

record PageState =
  projectAreaHa :: string
  plantingYear :: string
  creditingEndYear :: string
  mortalityRate :: string
  considerMortality :: YesNo
  defaultGrowthRate :: string
  forceYearZeroZero :: bool
  useSchedule :: bool
  scheduleYears :: string
  scheduleMode :: ScheduleMode
  constantAreaPerYear :: string
  customSchedule :: "ScheduleRow list"
  rows :: "SpeciesRow list"

text \<open>\<^verbatim>\<open>!s\<close> on an optional string: undefined or empty.\<close>

definition falsyStr :: "string option \<Rightarrow> bool" where
  "falsyStr s = (s = None \<or> s = Some [])"

section \<open>Loops over a numeric bound\<close>

text \<open>
  \<^verbatim>\<open>for (let i = 0; i < n; i++)\<close> and \<^verbatim>\<open>for (let g = 0; g <= n; g++)\<close>: the values
  the counter takes. With an infinite bound the loop does not end: the result is \<open>None\<close>.
  With a NaN bound the test fails at once.
\<close>

definition countBelow :: "jsnum \<Rightarrow> nat list option" where
  "countBelow n =
     (case n of
        Fin x \<Rightarrow> Some [0 ..< nat \<lceil>x\<rceil>]
      | PInf \<Rightarrow> None
      | NInf \<Rightarrow> Some []
      | NaN \<Rightarrow> Some [])"

definition countUpTo :: "jsnum \<Rightarrow> nat list option" where
  "countUpTo n =
     (case n of
        Fin x \<Rightarrow> Some [0 ..< nat (\<lfloor>x\<rfloor> + 1)]
      | PInf \<Rightarrow> None
      | NInf \<Rightarrow> Some []
      | NaN \<Rightarrow> Some [])"

section \<open>Validation\<close>

datatype ValidationError =
    EnterPlantingYear
  | EnterEndYear
  | YearsMustBeNumbers
  | EndBeforePlanting
  | NoSpecies
  | PercentNotPositive
  | PercentOver100
  | RowNeedsName
  | RowNeedsPercent string
  | RowNeedsSpacing string
  | RowNeedsDensity string
  | RowNeedsEquation string
  | ScheduleYearsNotPositive
  | EnterConstantArea
  | ScheduleRowsMismatch
  | ScheduleAreaMissing
  | EnterProjectArea

definition totalPercent :: "PageState \<Rightarrow> jsnum" where
  "totalPercent st =
     foldl (\<lambda>sum r. sum + orElse (parseFloat (strOr (r_percent r) ''0'')) (Fin 0)) (Fin 0) (rows st)"

definition validateRow :: "SpeciesRow \<Rightarrow> ValidationError option" where
  "validateRow r =
     (if r_name r = [] then Some RowNeedsName
      else if r_percent r = [] then Some (RowNeedsPercent (r_name r))
      else if r_inputMode r = Spacing \<and> falsyStr (r_spacing r) then Some (RowNeedsSpacing (r_name r))
      else if r_inputMode r = Density \<and> falsyStr (r_density r) then Some (RowNeedsDensity (r_name r))
      else if r_useCustomEq r = Some True \<and> falsyStr (r_customEquation r)
        then Some (RowNeedsEquation (r_name r))
      else None)"

fun validateRows :: "SpeciesRow list \<Rightarrow> ValidationError option" where
  "validateRows [] = None"
| "validateRows (r # rs) =
     (case validateRow r of Some e \<Rightarrow> Some e | None \<Rightarrow> validateRows rs)"

definition validateSchedule :: "PageState \<Rightarrow> ValidationError option" where
  "validateSchedule st =
     (if useSchedule st then
        (let n = clamp (parseInt (strOr (scheduleYears st) ''0'')) (Fin 0) (Fin 200)
         in if n \<le> Fin 0 then Some ScheduleYearsNotPositive
            else if scheduleMode st = Constant then
              (if constantAreaPerYear st = [] then Some EnterConstantArea else None)
            else if \<not> strictEq (Fin (real (length (customSchedule st)))) n
              then Some ScheduleRowsMismatch
            else if list_ex (\<lambda>r. sr_areaHa r = [] \<or> parseFloat (sr_areaHa r) < Fin 0) (customSchedule st)
              then Some ScheduleAreaMissing
            else None)
      else if projectAreaHa st = [] then Some EnterProjectArea
      else None)"

definition validate :: "PageState \<Rightarrow> ValidationError option" where
  "validate st =
     (if plantingYear st = [] then Some EnterPlantingYear
      else if creditingEndYear st = [] then Some EnterEndYear
      else
        let py = parseInt (plantingYear st); ey = parseInt (creditingEndYear st)
        in if isNaN py \<or> isNaN ey then Some YearsMustBeNumbers
           else if ey < py then Some EndBeforePlanting
           else if rows st = [] then Some NoSpecies
           else if totalPercent st \<le> Fin 0 then Some PercentNotPositive
           else if Fin 100 < totalPercent st then Some PercentOver100
           else (case validateRows (rows st) of
                   Some e \<Rightarrow> Some e
                 | None \<Rightarrow> validateSchedule st))"

section \<open>The calculation\<close>

record Cohort =
  sch_year :: jsnum
  sch_areaHa :: jsnum

record SpeciesSetup =
  sp_id :: string
  sp_name :: string
  sp_region :: RegionType
  sp_percent :: jsnum
  sp_densityHa :: jsnum
  sp_growthRateCmYr :: jsnum
  sp_initialDbhCm :: jsnum
  sp_biomassFn :: "jsnum \<Rightarrow> jsnum"

text \<open>The area planted in schedule year \<open>y\<close>.\<close>

definition scheduledArea :: "PageState \<Rightarrow> jsnum \<Rightarrow> jsnum" where
  "scheduledArea st y =
     (if scheduleMode st = Constant
      then orElse (parseFloat (strOr (constantAreaPerYear st) ''0'')) (Fin 0)
      else orElse (parseFloat (strOr
             (case find (\<lambda>r. strictEq (sr_year r) y) (customSchedule st) of
                None \<Rightarrow> []
              | Some r \<Rightarrow> sr_areaHa r) ''0'')) (Fin 0))"

definition buildSchedule :: "PageState \<Rightarrow> jsnum \<Rightarrow> Cohort list option" where
  "buildSchedule st py =
     (if useSchedule st then
        (let n = clamp (parseInt (strOr (scheduleYears st) ''0'')) (Fin 0) (Fin 200)
         in map_option
              (map (\<lambda>i. let y = py + Fin (real i); area = scheduledArea st y
                        in \<lparr>sch_year = y, sch_areaHa = Math_max (Fin 0) area\<rparr>))
              (countBelow n))
      else
        (let areaTotal = orElse (parseFloat (strOr (projectAreaHa st) ''0'')) (Fin 0)
         in Some [\<lparr>sch_year = py, sch_areaHa = Math_max (Fin 0) areaTotal\<rparr>]))"

text \<open>The closure \<^verbatim>\<open>eq\<close> of a species row: the custom equation, or the default.\<close>

definition biomassFn :: "jsengine \<Rightarrow> SpeciesRow \<Rightarrow> jsnum \<Rightarrow> jsnum" where
  "biomassFn newFunction r D =
     (let useCustom = (r_useCustomEq r = Some True \<and> \<not> falsyStr (r_customEquation r))
      in if useCustom then
           (let v = evalBiomassExpr newFunction D (optOr (r_customEquation r) [])
            in if \<not> isNaN v \<and> Fin 0 \<le> v then v
               else defaultAllometryBiomassKg D (r_region r))
         else defaultAllometryBiomassKg D (r_region r))"

definition setupSpecies :: "jsengine \<Rightarrow> jsnum \<Rightarrow> SpeciesRow \<Rightarrow> SpeciesSetup" where
  "setupSpecies newFunction defaultGR r =
     (let densityHa =
            (if r_inputMode r = Density
             then Math_max (Fin 0) (parseFloat (optOr (r_density r) ''0''))
             else densityFromSpacing (parseFloat (optOr (r_spacing r) ''0'')));
          gr = orElse (parseFloat (optOr (r_growthRateCmYr r) [])) defaultGR;
          d0 = orElse (parseFloat (optOr (r_initialDbhCm r) ''0'')) (Fin 0)
      in \<lparr>sp_id = r_id r,
          sp_name = strOr (r_name r) ''Unnamed'',
          sp_region = r_region r,
          sp_percent = clamp (parseFloat (strOr (r_percent r) ''0'')) (Fin 0) (Fin 100),
          sp_densityHa = densityHa,
          sp_growthRateCmYr = gr,
          sp_initialDbhCm = d0,
          sp_biomassFn = biomassFn newFunction r\<rparr>)"

text \<open>
  One cohort (schedule entry) and one species: what the body of the inner
  \<^verbatim>\<open>forEach\<close> computes before it accumulates.
\<close>

record Contribution =
  c_surviving :: jsnum
  c_dbh :: jsnum
  c_speciesBiomassKg :: jsnum
  c_speciesCO2eT :: jsnum

definition contribution :: "bool \<Rightarrow> jsnum \<Rightarrow> jsnum \<Rightarrow> jsnum \<Rightarrow> SpeciesSetup \<Rightarrow> Contribution" where
  "contribution force mort cohortAge areaHa sp =
     (let areaForSpeciesHa = (sp_percent sp / Fin 100) * areaHa;
          initialTrees = areaForSpeciesHa * sp_densityHa sp;
          surviving = initialTrees * Math_pow (Fin 1 - mort) cohortAge;
          dbh = (if force \<and> strictEq cohortAge (Fin 0) then Fin 0
                 else sp_initialDbhCm sp + sp_growthRateCmYr sp * cohortAge);
          biomassPerTreeKg = sp_biomassFn sp dbh;
          speciesBiomassKg = (if force \<and> strictEq cohortAge (Fin 0) then Fin 0
                              else biomassPerTreeKg * surviving)
      in \<lparr>c_surviving = surviving, c_dbh = dbh, c_speciesBiomassKg = speciesBiomassKg,
          c_speciesCO2eT = kgBiomassToTonsCO2e speciesBiomassKg\<rparr>)"

record Totals =
  totalBiomassKg :: jsnum
  totalCreditsT :: jsnum
  totalTrees :: jsnum
  perSpeciesAgg :: "PerSpecies list"

definition addToSpecies :: "Contribution \<Rightarrow> PerSpecies \<Rightarrow> PerSpecies" where
  "addToSpecies c p =
     p\<lparr>ps_credits := ps_credits p + c_speciesCO2eT c,
       ps_biomassKg := ps_biomassKg p + c_speciesBiomassKg c,
       ps_survivingTrees := ps_survivingTrees p + c_surviving c,
       ps_dbhCm := c_dbh c\<rparr>"

definition speciesStep :: "bool \<Rightarrow> jsnum \<Rightarrow> jsnum \<Rightarrow> jsnum \<Rightarrow> Totals \<Rightarrow> SpeciesSetup \<times> nat \<Rightarrow> Totals" where
  "speciesStep force mort cohortAge areaHa acc spi =
     (let sp = fst spi; idx = snd spi
      in if sp_percent sp \<le> Fin 0 then acc
         else
           let c = contribution force mort cohortAge areaHa sp
           in \<lparr>totalBiomassKg = totalBiomassKg acc + c_speciesBiomassKg c,
               totalCreditsT = totalCreditsT acc + c_speciesCO2eT c,
               totalTrees = totalTrees acc + c_surviving c,
               perSpeciesAgg = (perSpeciesAgg acc)[idx := addToSpecies c (perSpeciesAgg acc ! idx)]\<rparr>)"

definition cohortStep :: "bool \<Rightarrow> jsnum \<Rightarrow> jsnum \<Rightarrow> jsnum \<Rightarrow> SpeciesSetup list \<Rightarrow> Totals \<Rightarrow> Cohort \<Rightarrow> Totals" where
  "cohortStep force mort py g speciesSetup acc sch =
     (let cohortStartIdx = sch_year sch - py
      in if g < cohortStartIdx then acc
         else
           let cohortAge = g - cohortStartIdx
           in foldl (speciesStep force mort cohortAge (sch_areaHa sch)) acc
                (zip speciesSetup [0 ..< length speciesSetup]))"

definition emptyAgg :: "SpeciesSetup \<Rightarrow> PerSpecies" where
  "emptyAgg s =
     \<lparr>ps_speciesId = sp_id s, ps_name = sp_name s, ps_credits = Fin 0, ps_biomassKg = Fin 0,
      ps_survivingTrees = Fin 0, ps_dbhCm = Fin 0\<rparr>"

definition yearRecord :: "bool \<Rightarrow> jsnum \<Rightarrow> jsnum \<Rightarrow> Cohort list \<Rightarrow> SpeciesSetup list \<Rightarrow> jsnum \<Rightarrow> YearRecord" where
  "yearRecord force mort py scheduled speciesSetup g =
     (let acc0 = \<lparr>totalBiomassKg = Fin 0, totalCreditsT = Fin 0, totalTrees = Fin 0,
                  perSpeciesAgg = map emptyAgg speciesSetup\<rparr>;
          acc = foldl (cohortStep force mort py g speciesSetup) acc0 scheduled
      in \<lparr>yr_year = py + g, yr_credits = totalCreditsT acc, yr_biomassKg = totalBiomassKg acc,
          yr_survivingTrees = totalTrees acc, yr_perSpecies = perSpeciesAgg acc\<rparr>)"

definition speciesCredits :: "string \<Rightarrow> YearRecord \<Rightarrow> jsnum" where
  "speciesCredits sid d =
     (case find (\<lambda>p. ps_speciesId p = sid) (yr_perSpecies d) of
        Some ps \<Rightarrow> ps_credits ps
      | None \<Rightarrow> Fin 0)"

definition summarise :: "YearRecord list \<Rightarrow> SpeciesSetup \<Rightarrow> SummaryRow" where
  "summarise yearly sp =
     \<lparr>ss_speciesId = sp_id sp, ss_name = sp_name sp,
      ss_totalCredits = foldl (\<lambda>sum d. sum + speciesCredits (sp_id sp) d) (Fin 0) yearly\<rparr>"

text \<open>
  The outcome of a click on Calculate: the alert of a validation error, the result
  handed to \<^verbatim>\<open>setCalc\<close>, or a loop that does not end.
\<close>

datatype Outcome = Alert ValidationError | Hangs | SetCalc CalcResult

definition mortalityOf :: "PageState \<Rightarrow> jsnum" where
  "mortalityOf st =
     (let mortFrac = clamp (parseFloat (strOr (mortalityRate st) ''0'') / Fin 100) (Fin 0) (Fin 1)
      in if considerMortality st = Yes then mortFrac else Fin 0)"

text \<open>The body of \<^verbatim>\<open>calculate\<close> after the validation.\<close>

definition runCalculation :: "jsengine \<Rightarrow> PageState \<Rightarrow> Outcome" where
  "runCalculation newFunction st =
     (let py = parseInt (plantingYear st);
          ey = parseInt (creditingEndYear st);
          nYears = ey - py;
          mort = mortalityOf st;
          defaultGR = parseFloat (strOr (defaultGrowthRate st) ''0.2'')
      in (case buildSchedule st py of
            None \<Rightarrow> Hangs
          | Some scheduled \<Rightarrow>
              let speciesSetup = map (setupSpecies newFunction defaultGR) (rows st)
              in (case countUpTo nYears of
                    None \<Rightarrow> Hangs
                  | Some gs \<Rightarrow>
                      let yearly = map (\<lambda>g. yearRecord (forceYearZeroZero st) mort py
                                           scheduled speciesSetup (Fin (real g))) gs;
                          totalCreditsAll = foldl (\<lambda>sum d. sum + yr_credits d) (Fin 0) yearly
                      in SetCalc \<lparr>totalCredits = totalCreditsAll, yearlyBreakdown = yearly,
                                  speciesSummary = map (summarise yearly) speciesSetup\<rparr>)))"

definition calculate :: "jsengine \<Rightarrow> PageState \<Rightarrow> Outcome" where
  "calculate newFunction st =
     (case validate st of
        Some err \<Rightarrow> Alert err
      | None \<Rightarrow> runCalculation newFunction st)"

text \<open>The span the page displays as "Years modeled".\<close>

definition yearsSpan :: "PageState \<Rightarrow> jsnum" where
  "yearsSpan st =
     (let py = parseInt (strOr (plantingYear st) ''0'');
          ey = parseInt (strOr (creditingEndYear st) ''0'')
      in clamp (ey - py) (Fin 0) (Fin 300))"

section \<open>Vocabulary of the properties\<close>

text \<open>
  The definitions of this section are not code of the page: they name what the
  properties speak about. A species takes part when the test \<^verbatim>\<open>sp.percent <= 0\<close> fails, a
  cohort when the test \<^verbatim>\<open>cohortStartIdx > g\<close> fails. A sum runs from left to right,
  starting at 0, as \<^verbatim>\<open>+=\<close> and \<^verbatim>\<open>reduce\<close> do.
\<close>

definition activeSpecies :: "SpeciesSetup \<Rightarrow> bool" where
  "activeSpecies sp = (\<not> sp_percent sp \<le> Fin 0)"

definition activeCohort :: "jsnum \<Rightarrow> jsnum \<Rightarrow> Cohort \<Rightarrow> bool" where
  "activeCohort py g sch = (\<not> g < sch_year sch - py)"

definition ageOf :: "jsnum \<Rightarrow> jsnum \<Rightarrow> Cohort \<Rightarrow> jsnum" where
  "ageOf py g sch = g - (sch_year sch - py)"

definition jsum :: "jsnum list \<Rightarrow> jsnum" where
  "jsum xs = foldl (+) (Fin 0) xs"

definition cohortContributions ::
  "bool \<Rightarrow> jsnum \<Rightarrow> jsnum \<Rightarrow> jsnum \<Rightarrow> Cohort list \<Rightarrow> SpeciesSetup \<Rightarrow> Contribution list" where
  "cohortContributions force mort py g scheduled sp =
     map (\<lambda>sch. contribution force mort (ageOf py g sch) (sch_areaHa sch) sp)
       (filter (activeCohort py g) scheduled)"

definition yearContributions ::
  "bool \<Rightarrow> jsnum \<Rightarrow> jsnum \<Rightarrow> jsnum \<Rightarrow> Cohort list \<Rightarrow> SpeciesSetup list \<Rightarrow> Contribution list" where
  "yearContributions force mort py g scheduled sps =
     concat (map (\<lambda>sch. map (contribution force mort (ageOf py g sch) (sch_areaHa sch))
                          (filter activeSpecies sps))
               (filter (activeCohort py g) scheduled))"

definition applyContribs :: "PerSpecies \<Rightarrow> Contribution list \<Rightarrow> PerSpecies" where
  "applyContribs p cs = foldl (\<lambda>q c. addToSpecies c q) p cs"

definition speciesEntry ::
  "bool \<Rightarrow> jsnum \<Rightarrow> jsnum \<Rightarrow> jsnum \<Rightarrow> Cohort list \<Rightarrow> SpeciesSetup \<Rightarrow> PerSpecies" where
  "speciesEntry force mort py g scheduled sp =
     (if activeSpecies sp
      then applyContribs (emptyAgg sp) (cohortContributions force mort py g scheduled sp)
      else emptyAgg sp)"

text \<open>
  The area planted in a schedule year, and the cohort that \<open>buildSchedule\<close> makes for the
  \<open>i\<close>-th year after a planting year \<open>p\<close>.
\<close>

definition areaPlanted :: "PageState \<Rightarrow> jsnum \<Rightarrow> jsnum" where
  "areaPlanted st y =
     (if useSchedule st then scheduledArea st y
      else orElse (parseFloat (strOr (projectAreaHa st) ''0'')) (Fin 0))"

definition cohortOf :: "PageState \<Rightarrow> real \<Rightarrow> nat \<Rightarrow> Cohort" where
  "cohortOf st p i =
     \<lparr>sch_year = Fin (p + real i), sch_areaHa = Math_max (Fin 0) (areaPlanted st (Fin (p + real i)))\<rparr>"


text \<open>
  The scenario of the specification: planting in 2025, crediting until 2027, one dry
  species on all of one hectare at 3 m spacing, growing 0.2 cm a year, no schedule, no
  mortality, year zero forced to zero. The engine of the example knows one body only.
\<close>

definition exampleEngine :: jsengine where
  "exampleEngine body D = (if body = ''return ((D));'' then Returns (JSNumber D) else Throws)"

definition exampleRow :: SpeciesRow where
  "exampleRow =
     \<lparr>r_id = ''sp1'', r_name = ''Teak'', r_region = Dry, r_percent = ''100'',
      r_inputMode = Spacing, r_spacing = Some ''3'', r_density = None,
      r_growthRateCmYr = Some ''0.2'', r_initialDbhCm = Some ''0'',
      r_useCustomEq = Some False, r_customEquation = Some []\<rparr>"

definition exampleState :: PageState where
  "exampleState =
     \<lparr>projectAreaHa = ''1'', plantingYear = ''2025'', creditingEndYear = ''2027'',
      mortalityRate = ''0'', considerMortality = Yes, defaultGrowthRate = ''0.2'',
      forceYearZeroZero = True, useSchedule = False, scheduleYears = ''5'',
      scheduleMode = Custom, constantAreaPerYear = [], customSchedule = [],
      rows = [exampleRow]\<rparr>"

text \<open>Variations of the scenario.\<close>

definition negativeGrowthRow :: SpeciesRow where
  "negativeGrowthRow = exampleRow\<lparr>r_growthRateCmYr := Some ''-1''\<rparr>"

definition customRow :: SpeciesRow where
  "customRow = exampleRow\<lparr>r_useCustomEq := Some True, r_customEquation := Some ''D''\<rparr>"

definition scheduleState :: PageState where
  "scheduleState =
     exampleState\<lparr>useSchedule := True, scheduleYears := ''2'', scheduleMode := Constant,
                   constantAreaPerYear := ''1''\<rparr>"

definition exampleSetup :: "SpeciesSetup list" where
  "exampleSetup = [setupSpecies exampleEngine (parseFloat ''0.2'') exampleRow]"

text \<open>The year records of an outcome; none when there is no result.\<close>

definition yearsOf :: "Outcome \<Rightarrow> YearRecord list" where
  "yearsOf out = (case out of SetCalc res \<Rightarrow> yearlyBreakdown res | _ \<Rightarrow> [])"

definition longState :: PageState where
  "longState = exampleState\<lparr>plantingYear := ''2000'', creditingEndYear := ''2500''\<rparr>"

definition overflowState :: PageState where
  "overflowState =
     exampleState\<lparr>projectAreaHa := ''0'', forceYearZeroZero := False,
       rows := [exampleRow\<lparr>r_inputMode := Density, r_density := Some ''1e309''\<rparr>]\<rparr>"

text \<open>
  The result of an outcome, if there is one; its summary rows; the credits of the
  per-species entries of a year record, in the order of the entries.
\<close>

definition resultOf :: "Outcome \<Rightarrow> CalcResult option" where
  "resultOf out = (case out of SetCalc res \<Rightarrow> Some res | _ \<Rightarrow> None)"

definition summaryOf :: "Outcome \<Rightarrow> SummaryRow list" where
  "summaryOf out = (case out of SetCalc res \<Rightarrow> speciesSummary res | _ \<Rightarrow> [])"

definition entryCredits :: "YearRecord \<Rightarrow> jsnum list" where
  "entryCredits d = map ps_credits (yr_perSpecies d)"

text \<open>
  The position of the first row that carries an id: the entry that
  \<^verbatim>\<open>d.perSpecies.find(p => p.speciesId === sp.id)\<close> returns stands at this position.
\<close>

definition firstWithId :: "SpeciesRow list \<Rightarrow> string \<Rightarrow> nat" where
  "firstWithId rs sid = length (takeWhile (\<lambda>r. r_id r \<noteq> sid) rs)"

text \<open>
  A year written with 310 digits (the digit 1 followed by 309 zeros), the scenario with
  this year as both years, and with this year as the end year only.
\<close>

definition hugeYear :: string where
  "hugeYear = CHR ''1'' # replicate 309 (CHR ''0'')"

definition hugeState :: PageState where
  "hugeState = exampleState\<lparr>plantingYear := hugeYear, creditingEndYear := hugeYear\<rparr>"

definition lateState :: PageState where
  "lateState = exampleState\<lparr>creditingEndYear := hugeYear\<rparr>"

text \<open>
  Two species rows with the same id: 75 and 25 percent of one hectare at 100 trees per
  hectare, an initial diameter of 2 cm, the custom equation \<open>D\<close>; one modelled year, not
  forced to zero.
\<close>

definition twinRowA :: SpeciesRow where
  "twinRowA =
     \<lparr>r_id = ''sp1'', r_name = ''A'', r_region = Dry, r_percent = ''75'',
      r_inputMode = Density, r_spacing = None, r_density = Some ''100'',
      r_growthRateCmYr = None, r_initialDbhCm = Some ''2'',
      r_useCustomEq = Some True, r_customEquation = Some ''D''\<rparr>"

definition twinRowB :: SpeciesRow where
  "twinRowB = twinRowA\<lparr>r_name := ''B'', r_percent := ''25''\<rparr>"

definition twinState :: PageState where
  "twinState =
     exampleState\<lparr>creditingEndYear := ''2025'', forceYearZeroZero := False,
       rows := [twinRowA, twinRowB]\<rparr>"

text \<open>
  A number is not negative when it is NaN or at least 0 (\<open>+Infinity\<close> included). The
  numeric outputs of an entry, of a year record and of a result.
\<close>

definition notNegative :: "jsnum \<Rightarrow> bool" where
  "notNegative v = (isNaN v \<or> Fin 0 \<le> v)"

definition entryNotNegative :: "PerSpecies \<Rightarrow> bool" where
  "entryNotNegative e =
     (notNegative (ps_credits e) \<and> notNegative (ps_biomassKg e) \<and> notNegative (ps_survivingTrees e))"

definition recordNotNegative :: "YearRecord \<Rightarrow> bool" where
  "recordNotNegative d =
     (notNegative (yr_credits d) \<and> notNegative (yr_biomassKg d) \<and> notNegative (yr_survivingTrees d)
      \<and> list_all entryNotNegative (yr_perSpecies d))"

definition resultNotNegative :: "CalcResult \<Rightarrow> bool" where
  "resultNotNegative res =
     (notNegative (totalCredits res)
      \<and> list_all (\<lambda>s. notNegative (ss_totalCredits s)) (speciesSummary res)
      \<and> list_all recordNotNegative (yearlyBreakdown res))"

definition brokenRow :: SpeciesRow where
  "brokenRow = exampleRow\<lparr>r_useCustomEq := Some True, r_customEquation := Some ''1+''\<rparr>"

section \<open>Lemmas\<close>

lemmas parse_defs = parseInt_def parseFloat_def splitSign_def isWhiteSpace_def isDigit_def
  digitsValue_def digitValue_def exponentPart_def scale10_def toNumber_def natToNumber_def
  roundNat_def strOr_def optOr_def

lemma Fin_minus [simp]: "Fin a - Fin b = Fin (a - b)"
  by (simp add: minus_jsnum_def)

lemma set_dropWhile_keep: "c \<in> set s \<Longrightarrow> \<not> P c \<Longrightarrow> c \<in> set (dropWhile P s)"
  by (induction s) auto

lemma set_trim_keep: "c \<in> set s \<Longrightarrow> \<not> isWhiteSpace c \<Longrightarrow> c \<in> set (trim s)"
  by (simp add: trim_def set_dropWhile_keep)

lemma not_allowed_trim:
  assumes "c \<in> set s" "\<not> allowedChar c"
  shows "\<not> allowed (trim s)"
proof -
  from assms(2) have "\<not> isWhiteSpace c" by (auto simp: allowedChar_def)
  with assms(1) have "c \<in> set (trim s)" by (rule set_trim_keep)
  with assms(2) show ?thesis by (auto simp: allowed_def list_all_iff)
qed

lemma evalBiomassExpr_not_allowed:
  "c \<in> set s \<Longrightarrow> \<not> allowedChar c \<Longrightarrow> evalBiomassExpr eng D s = NaN"
  using not_allowed_trim[of c s] by (auto simp: evalBiomassExpr_def Let_def)

lemma blocked_append: "blocked t \<Longrightarrow> blocked (a @ t)"
  by (induction a) auto

lemma blocked_new: "blocked (a @ ''new '' @ b)"
  by (rule blocked_append) (simp add: blockedAt_def lowerAscii_def isWhiteSpace_def)

lemma blocked_words:
  "w \<in> set [''constructor'', ''__proto__'', ''prototype'', ''=>''] \<Longrightarrow> blocked (a @ w @ b)"
  by (rule blocked_append) (auto simp: blockedAt_def lowerAscii_def)

lemma isFinite_iff: "isFinite v \<longleftrightarrow> (\<exists>x. v = Fin x)"
  by (cases v) auto

lemma isNaN_iff: "isNaN v \<longleftrightarrow> v = NaN"
  by (cases v) auto

lemma evalBiomassExpr_cases:
  "evalBiomassExpr eng D s = NaN \<or> (\<exists>x. evalBiomassExpr eng D s = Fin x)"
  by (auto simp: evalBiomassExpr_def Let_def isFinite_iff split: jsoutcome.splits jsvalue.splits)

lemma evalBiomassExpr_throws:
  "eng (''return ('' @ rewriteExpr (trim s) @ '');'') D = Throws \<Longrightarrow> evalBiomassExpr eng D s = NaN"
  by (simp add: evalBiomassExpr_def Let_def)

lemma evalBiomassExpr_blocked:
  "blocked (rewriteExpr (trim s)) \<Longrightarrow> evalBiomassExpr eng D s = NaN"
  by (simp add: evalBiomassExpr_def Let_def)

lemma defaultAllometry_pos_dry:
  "0 < x \<Longrightarrow> defaultAllometryBiomassKg (Fin x) Dry = Fin (exp (- 1.996 + 2.32 * ln x))"
  by (simp add: defaultAllometryBiomassKg_def)

lemma defaultAllometry_pos_moist:
  "0 < x \<Longrightarrow> defaultAllometryBiomassKg (Fin x) Moist = Fin (exp (- 2.134 + 2.530 * ln x))"
  by (simp add: defaultAllometryBiomassKg_def)

lemma defaultAllometry_zero:
  "D \<le> Fin 0 \<or> isNaN D \<Longrightarrow> defaultAllometryBiomassKg D region = Fin 0"
  by (auto simp: defaultAllometryBiomassKg_def)

lemma defaultAllometry_PInf: "defaultAllometryBiomassKg PInf region = PInf"
  by (cases region) (simp_all add: defaultAllometryBiomassKg_def)

lemma defaultAllometry_nonneg:
  "\<exists>y. defaultAllometryBiomassKg (Fin x) region = Fin y \<and> 0 \<le> y"
  by (cases region) (auto simp: defaultAllometryBiomassKg_def)

lemma biomassFn_custom:
  "r_useCustomEq r = Some True \<Longrightarrow> r_customEquation r = Some e \<Longrightarrow> e \<noteq> [] \<Longrightarrow>
   evalBiomassExpr eng D e = Fin v \<Longrightarrow> 0 \<le> v \<Longrightarrow> biomassFn eng r D = Fin v"
  by (simp add: biomassFn_def falsyStr_def optOr_def strOr_def)

lemma biomassFn_default:
  "r_useCustomEq r \<noteq> Some True \<or> falsyStr (r_customEquation r)
     \<or> evalBiomassExpr eng D (optOr (r_customEquation r) []) = NaN
     \<or> (\<exists>v. evalBiomassExpr eng D (optOr (r_customEquation r) []) = Fin v \<and> v < 0)
   \<Longrightarrow> biomassFn eng r D = defaultAllometryBiomassKg D (r_region r)"
  by (auto simp: biomassFn_def Let_def)

lemma setup_growth:
  "sp_growthRateCmYr (setupSpecies eng defaultGR r) =
     orElse (parseFloat (optOr (r_growthRateCmYr r) [])) defaultGR"
  by (simp add: setupSpecies_def Let_def)

lemma disallowed_chars: "\<not> allowedChar CHR ''u''" "\<not> allowedChar CHR ''_''" "\<not> allowedChar CHR ''y''" "\<not> allowedChar CHR ''=''"
  by (simp_all add: allowedChar_def isDigit_def isWhiteSpace_def lowerAscii_def)

lemma zip_snoc_upt:
  "zip (xs @ [x]) [0 ..< Suc (length xs)] = zip xs [0 ..< length xs] @ [(x, length xs)]"
  by simp

lemma speciesFold:
  "length sps \<le> length (perSpeciesAgg acc) \<Longrightarrow>
   (let acc' = foldl (speciesStep f m age area) acc (zip sps [0 ..< length sps]);
        cs = map (contribution f m age area) (filter activeSpecies sps)
    in totalCreditsT acc' = foldl (+) (totalCreditsT acc) (map c_speciesCO2eT cs)
     \<and> totalBiomassKg acc' = foldl (+) (totalBiomassKg acc) (map c_speciesBiomassKg cs)
     \<and> totalTrees acc' = foldl (+) (totalTrees acc) (map c_surviving cs)
     \<and> length (perSpeciesAgg acc') = length (perSpeciesAgg acc)
     \<and> (\<forall>i < length (perSpeciesAgg acc). perSpeciesAgg acc' ! i =
          (if i < length sps \<and> activeSpecies (sps ! i)
           then addToSpecies (contribution f m age area (sps ! i)) (perSpeciesAgg acc ! i)
           else perSpeciesAgg acc ! i)))"
proof (induction sps rule: rev_induct)
  case Nil
  then show ?case by simp
next
  case (snoc sp sps)
  then have len: "length sps < length (perSpeciesAgg acc)" by simp
  with snoc.IH have IH: "let acc' = foldl (speciesStep f m age area) acc (zip sps [0 ..< length sps]);
        cs = map (contribution f m age area) (filter activeSpecies sps)
    in totalCreditsT acc' = foldl (+) (totalCreditsT acc) (map c_speciesCO2eT cs)
     \<and> totalBiomassKg acc' = foldl (+) (totalBiomassKg acc) (map c_speciesBiomassKg cs)
     \<and> totalTrees acc' = foldl (+) (totalTrees acc) (map c_surviving cs)
     \<and> length (perSpeciesAgg acc') = length (perSpeciesAgg acc)
     \<and> (\<forall>i < length (perSpeciesAgg acc). perSpeciesAgg acc' ! i =
          (if i < length sps \<and> activeSpecies (sps ! i)
           then addToSpecies (contribution f m age area (sps ! i)) (perSpeciesAgg acc ! i)
           else perSpeciesAgg acc ! i))" by simp
  show ?case
    using IH len unfolding Let_def
    by (auto simp: speciesStep_def Let_def activeSpecies_def nth_append nth_list_update less_Suc_eq)
qed

lemma cohortStep_eq:
  "length sps = length (perSpeciesAgg acc) \<Longrightarrow>
   (let acc' = cohortStep f m py g sps acc sch;
        cs = (if activeCohort py g sch
              then map (contribution f m (ageOf py g sch) (sch_areaHa sch)) (filter activeSpecies sps)
              else [])
    in totalCreditsT acc' = foldl (+) (totalCreditsT acc) (map c_speciesCO2eT cs)
     \<and> totalBiomassKg acc' = foldl (+) (totalBiomassKg acc) (map c_speciesBiomassKg cs)
     \<and> totalTrees acc' = foldl (+) (totalTrees acc) (map c_surviving cs)
     \<and> length (perSpeciesAgg acc') = length (perSpeciesAgg acc)
     \<and> (\<forall>i < length sps. perSpeciesAgg acc' ! i =
          (if activeCohort py g sch \<and> activeSpecies (sps ! i)
           then addToSpecies (contribution f m (ageOf py g sch) (sch_areaHa sch) (sps ! i))
                  (perSpeciesAgg acc ! i)
           else perSpeciesAgg acc ! i)))"
proof (cases "activeCohort py g sch")
  case False
  then show ?thesis by (simp add: cohortStep_def activeCohort_def Let_def)
next
  case True
  assume len: "length sps = length (perSpeciesAgg acc)"
  then have "length sps \<le> length (perSpeciesAgg acc)" by simp
  from speciesFold[OF this, of f m "ageOf py g sch" "sch_areaHa sch"] True len
  show ?thesis
    by (simp add: cohortStep_def activeCohort_def ageOf_def Let_def)
qed

lemma cohortFold:
  "length sps = length (perSpeciesAgg acc) \<Longrightarrow>
   (let acc' = foldl (cohortStep f m py g sps) acc scheduled;
        cs = yearContributions f m py g scheduled sps
    in totalCreditsT acc' = foldl (+) (totalCreditsT acc) (map c_speciesCO2eT cs)
     \<and> totalBiomassKg acc' = foldl (+) (totalBiomassKg acc) (map c_speciesBiomassKg cs)
     \<and> totalTrees acc' = foldl (+) (totalTrees acc) (map c_surviving cs)
     \<and> length (perSpeciesAgg acc') = length (perSpeciesAgg acc)
     \<and> (\<forall>i < length sps. perSpeciesAgg acc' ! i =
          (if activeSpecies (sps ! i)
           then applyContribs (perSpeciesAgg acc ! i) (cohortContributions f m py g scheduled (sps ! i))
           else perSpeciesAgg acc ! i)))"
proof (induction scheduled arbitrary: acc)
  case Nil
  then show ?case
    by (simp add: yearContributions_def cohortContributions_def applyContribs_def)
next
  case (Cons sch scheduled)
  let ?a = "cohortStep f m py g sps acc sch"
  from cohortStep_eq[OF Cons.prems, of f m py g sch]
  have step: "totalCreditsT ?a = foldl (+) (totalCreditsT acc) (map c_speciesCO2eT
                (if activeCohort py g sch
                 then map (contribution f m (ageOf py g sch) (sch_areaHa sch)) (filter activeSpecies sps)
                 else []))"
    "totalBiomassKg ?a = foldl (+) (totalBiomassKg acc) (map c_speciesBiomassKg
                (if activeCohort py g sch
                 then map (contribution f m (ageOf py g sch) (sch_areaHa sch)) (filter activeSpecies sps)
                 else []))"
    "totalTrees ?a = foldl (+) (totalTrees acc) (map c_surviving
                (if activeCohort py g sch
                 then map (contribution f m (ageOf py g sch) (sch_areaHa sch)) (filter activeSpecies sps)
                 else []))"
    "length (perSpeciesAgg ?a) = length (perSpeciesAgg acc)"
    "\<forall>i < length sps. perSpeciesAgg ?a ! i =
          (if activeCohort py g sch \<and> activeSpecies (sps ! i)
           then addToSpecies (contribution f m (ageOf py g sch) (sch_areaHa sch) (sps ! i))
                  (perSpeciesAgg acc ! i)
           else perSpeciesAgg acc ! i)"
    by (simp_all add: Let_def)
  have len': "length sps = length (perSpeciesAgg ?a)"
    using step(4) Cons.prems by simp
  note IH = Cons.IH[OF len', unfolded Let_def]
  show ?case
    unfolding Let_def
    using IH step
    by (auto simp: yearContributions_def cohortContributions_def applyContribs_def)
qed

lemma applyContribs_snoc: "applyContribs p (cs @ [c]) = addToSpecies c (applyContribs p cs)"
  by (simp add: applyContribs_def)

lemma applyContribs_fields:
  "ps_credits (applyContribs p cs) = foldl (+) (ps_credits p) (map c_speciesCO2eT cs)
   \<and> ps_biomassKg (applyContribs p cs) = foldl (+) (ps_biomassKg p) (map c_speciesBiomassKg cs)
   \<and> ps_survivingTrees (applyContribs p cs) = foldl (+) (ps_survivingTrees p) (map c_surviving cs)
   \<and> ps_dbhCm (applyContribs p cs) = (if cs = [] then ps_dbhCm p else c_dbh (last cs))
   \<and> ps_speciesId (applyContribs p cs) = ps_speciesId p
   \<and> ps_name (applyContribs p cs) = ps_name p"
proof (induction cs rule: rev_induct)
  case Nil
  then show ?case by (simp add: applyContribs_def)
next
  case (snoc c cs)
  then show ?case by (simp add: applyContribs_snoc addToSpecies_def)
qed

lemma yearRecord_eq:
  "yr_year (yearRecord f m py scheduled sps g) = py + g"
  "yr_credits (yearRecord f m py scheduled sps g) =
     jsum (map c_speciesCO2eT (yearContributions f m py g scheduled sps))"
  "yr_biomassKg (yearRecord f m py scheduled sps g) =
     jsum (map c_speciesBiomassKg (yearContributions f m py g scheduled sps))"
  "yr_survivingTrees (yearRecord f m py scheduled sps g) =
     jsum (map c_surviving (yearContributions f m py g scheduled sps))"
  "yr_perSpecies (yearRecord f m py scheduled sps g) = map (speciesEntry f m py g scheduled) sps"
proof -
  let ?acc0 = "\<lparr>totalBiomassKg = Fin 0, totalCreditsT = Fin 0, totalTrees = Fin 0,
                perSpeciesAgg = map emptyAgg sps\<rparr>"
  have len: "length sps = length (perSpeciesAgg ?acc0)" by simp
  note F = cohortFold[OF len, of f m py g scheduled, unfolded Let_def, simplified]
  show "yr_year (yearRecord f m py scheduled sps g) = py + g"
    by (simp add: yearRecord_def Let_def)
  show "yr_credits (yearRecord f m py scheduled sps g) =
     jsum (map c_speciesCO2eT (yearContributions f m py g scheduled sps))"
    using F by (simp add: yearRecord_def Let_def jsum_def)
  show "yr_biomassKg (yearRecord f m py scheduled sps g) =
     jsum (map c_speciesBiomassKg (yearContributions f m py g scheduled sps))"
    using F by (simp add: yearRecord_def Let_def jsum_def)
  show "yr_survivingTrees (yearRecord f m py scheduled sps g) =
     jsum (map c_surviving (yearContributions f m py g scheduled sps))"
    using F by (simp add: yearRecord_def Let_def jsum_def)
  show "yr_perSpecies (yearRecord f m py scheduled sps g) = map (speciesEntry f m py g scheduled) sps"
  proof (rule nth_equalityI)
    show "length (yr_perSpecies (yearRecord f m py scheduled sps g))
        = length (map (speciesEntry f m py g scheduled) sps)"
      using F by (simp add: yearRecord_def Let_def)
  next
    fix i assume "i < length (yr_perSpecies (yearRecord f m py scheduled sps g))"
    then have i: "i < length sps" using F by (simp add: yearRecord_def Let_def)
    then show "yr_perSpecies (yearRecord f m py scheduled sps g) ! i
        = map (speciesEntry f m py g scheduled) sps ! i"
      using F by (simp add: yearRecord_def Let_def speciesEntry_def)
  qed
qed

lemma clamp_cases:
  "lo \<le> hi \<Longrightarrow> clamp n (Fin lo) (Fin hi) = NaN \<or> (\<exists>x. clamp n (Fin lo) (Fin hi) = Fin x \<and> lo \<le> x \<and> x \<le> hi)"
  by (cases n) (auto simp: clamp_def)

lemma countBelow_clamp:
  "\<exists>is. countBelow (clamp n (Fin 0) (Fin 200)) = Some is \<and> length is \<le> 200"
proof -
  from clamp_cases[of 0 200 n]
  consider "clamp n (Fin 0) (Fin 200) = NaN"
    | x where "clamp n (Fin 0) (Fin 200) = Fin x" "0 \<le> x" "x \<le> 200"
    by auto
  then show ?thesis
  proof cases
    case 1
    then show ?thesis by (simp add: countBelow_def)
  next
    case 2
    from 2(3) have "\<lceil>x\<rceil> \<le> 200" by (simp add: ceiling_le_iff)
    then have "nat \<lceil>x\<rceil> \<le> 200" by simp
    with 2(1) show ?thesis by (simp add: countBelow_def)
  qed
qed

lemma buildSchedule_Some:
  "\<exists>scheduled. buildSchedule st py = Some scheduled \<and> length scheduled \<le> 200"
proof (cases "useSchedule st")
  case False
  then show ?thesis by (simp add: buildSchedule_def Let_def)
next
  case True
  from countBelow_clamp[of "parseInt (strOr (scheduleYears st) ''0'')"]
  obtain "is" where "countBelow (clamp (parseInt (strOr (scheduleYears st) ''0'')) (Fin 0) (Fin 200)) = Some is"
    "length is \<le> 200" by blast
  with True show ?thesis by (simp add: buildSchedule_def Let_def)
qed

lemma countUpTo_years:
  "countUpTo (Fin (of_int e - of_int p)) = Some [0 ..< nat (e - p + 1)]"
proof -
  have "\<lfloor>(of_int e :: real) - of_int p\<rfloor> = e - p"
    by (metis floor_of_int of_int_diff)
  then show ?thesis by (simp add: countUpTo_def)
qed

lemma speciesEntry_id [simp]: "ps_speciesId (speciesEntry f m py g scheduled sp) = sp_id sp"
  by (simp add: speciesEntry_def applyContribs_fields emptyAgg_def)

lemma setupSpecies_id [simp]: "sp_id (setupSpecies eng gr r) = r_id r"
  by (simp add: setupSpecies_def Let_def)

lemma jsum_map: "jsum (map h xs) = foldl (\<lambda>s x. s + h x) (Fin 0) xs"
  by (simp add: jsum_def foldl_map)

lemma countBelow_upt: "countBelow x = Some is \<Longrightarrow> \<exists>n. is = [0 ..< n]"
proof (cases x)
  case (Fin r)
  assume "countBelow x = Some is"
  with Fin show ?thesis by (auto simp: countBelow_def)
next
  case PInf
  assume "countBelow x = Some is"
  with PInf show ?thesis by (simp add: countBelow_def)
next
  case NInf
  assume "countBelow x = Some is"
  with NInf have "is = [0 ..< 0]" by (simp add: countBelow_def)
  then show ?thesis ..
next
  case NaN
  assume "countBelow x = Some is"
  with NaN have "is = [0 ..< 0]" by (simp add: countBelow_def)
  then show ?thesis ..
qed

lemma buildSchedule_shape:
  assumes "buildSchedule st (Fin p) = Some scheduled"
  shows "\<exists>n \<le> 200. scheduled = map (cohortOf st p) [0 ..< n]"
proof (cases "useSchedule st")
  case False
  with assms have "scheduled = map (cohortOf st p) [0 ..< 1]"
    by (auto simp: buildSchedule_def Let_def cohortOf_def areaPlanted_def)
  then show ?thesis by (intro exI[of _ 1]) simp
next
  case True
  from countBelow_clamp[of "parseInt (strOr (scheduleYears st) ''0'')"]
  obtain "is" where is1: "countBelow (clamp (parseInt (strOr (scheduleYears st) ''0'')) (Fin 0) (Fin 200)) = Some is"
    and is2: "length is \<le> 200" by blast
  from is1 obtain n where n: "is = [0 ..< n]"
    using countBelow_upt by blast
  with is2 have n200: "n \<le> 200" by simp
  from assms True is1 n have "scheduled = map (cohortOf st p) [0 ..< n]"
    by (auto simp: buildSchedule_def Let_def cohortOf_def areaPlanted_def)
  with n200 show ?thesis by blast
qed

lemma filter_le_upt: "filter (\<lambda>i. i \<le> k) [0 ..< n] = [0 ..< min n (Suc k)]"
  by (induction n) (auto simp: min_def le_Suc_eq)

lemma activeCohort_cohortOf:
  "activeCohort (Fin p) (Fin (real k)) (cohortOf st p i) \<longleftrightarrow> i \<le> k"
  by (auto simp: activeCohort_def cohortOf_def)

lemma ageOf_cohortOf:
  "ageOf (Fin p) (Fin (real k)) (cohortOf st p i) = Fin (real k - real i)"
  by (simp add: ageOf_def cohortOf_def)

lemma active_built:
  "filter (activeCohort (Fin p) (Fin (real k))) (map (cohortOf st p) [0 ..< n])
     = map (cohortOf st p) [0 ..< min n (Suc k)]"
  by (simp add: filter_map comp_def activeCohort_cohortOf filter_le_upt)

lemma Math_pow_nat: "Math_pow (Fin x) (Fin (real k)) = Fin (x ^ k)"
  by (cases "k = 0") (auto simp: powFinite_def isInteger_def)

lemma kg_zero: "kgBiomassToTonsCO2e (Fin 0) = Fin 0"
  by (simp add: kgBiomassToTonsCO2e_def)

lemma contribution_forced:
  "contribution True mort (Fin 0) areaHa sp =
     \<lparr>c_surviving = (sp_percent sp / Fin 100) * areaHa * sp_densityHa sp * Math_pow (Fin 1 - mort) (Fin 0),
      c_dbh = Fin 0, c_speciesBiomassKg = Fin 0, c_speciesCO2eT = Fin 0\<rparr>"
  by (simp add: contribution_def Let_def strictEq_def kg_zero)

lemma jsum_zero: "(\<And>x. x \<in> set xs \<Longrightarrow> x = Fin 0) \<Longrightarrow> jsum xs = Fin 0"
proof (induction xs rule: rev_induct)
  case Nil
  then show ?case by (simp add: jsum_def)
next
  case (snoc x xs)
  then have "jsum xs = Fin 0" "x = Fin 0" by auto
  then show ?case by (simp add: jsum_def)
qed

lemma sorted_last:
  "sorted_wrt R xs \<Longrightarrow> (\<And>x. x \<in> set xs \<Longrightarrow> R x x) \<Longrightarrow> x \<in> set xs \<Longrightarrow> R x (last xs)"
  by (induction xs) auto


lemma parseFloat_empty: "parseFloat [] = NaN"
  by (simp add: parse_defs)

lemma eval_D: "evalBiomassExpr exampleEngine D ''D'' = (if isFinite D then D else NaN)"
  by (simp add: evalBiomassExpr_def trim_def isWhiteSpace_def allowed_def allowedChar_def isDigit_def
      lowerAscii_def rewriteExpr_def matchCall_def blockedAt_def exampleEngine_def)

lemma rewrite_newD: "rewriteExpr (trim ''new D'') = ''new (D)''"
  by (simp add: trim_def isWhiteSpace_def rewriteExpr_def matchCall_def lowerAscii_def isWordChar_def isDigit_def)

lemma sch_year_cohortOf: "sch_year (cohortOf st p i) = Fin (p + real i)"
  by (simp add: cohortOf_def)

lemma contribution_fields:
  "c_surviving (contribution force mort age areaHa sp)
     = (sp_percent sp / Fin 100) * areaHa * sp_densityHa sp * Math_pow (Fin 1 - mort) age"
  "c_speciesCO2eT (contribution force mort age areaHa sp)
     = c_speciesBiomassKg (contribution force mort age areaHa sp) * Fin 0.47 * (Fin 44 / Fin 12) / Fin 1000"
  by (simp_all add: contribution_def Let_def kgBiomassToTonsCO2e_def)

lemma mortalityOf_range:
  "mortalityOf st = NaN \<or> (\<exists>m. mortalityOf st = Fin m \<and> 0 \<le> m \<and> m \<le> 1)"
  using clamp_cases[of 0 1 "parseFloat (strOr (mortalityRate st) ''0'') / Fin 100"]
  by (auto simp: mortalityOf_def Let_def)

lemma entry_fields:
  assumes "i < length sps" "activeSpecies (sps ! i)"
  shows "ps_credits (yr_perSpecies (yearRecord f m py scheduled sps g) ! i)
           = jsum (map c_speciesCO2eT (cohortContributions f m py g scheduled (sps ! i)))"
    and "ps_biomassKg (yr_perSpecies (yearRecord f m py scheduled sps g) ! i)
           = jsum (map c_speciesBiomassKg (cohortContributions f m py g scheduled (sps ! i)))"
    and "ps_survivingTrees (yr_perSpecies (yearRecord f m py scheduled sps g) ! i)
           = jsum (map c_surviving (cohortContributions f m py g scheduled (sps ! i)))"
    and "ps_dbhCm (yr_perSpecies (yearRecord f m py scheduled sps g) ! i)
           = (if cohortContributions f m py g scheduled (sps ! i) = [] then Fin 0
              else c_dbh (last (cohortContributions f m py g scheduled (sps ! i))))"
  using assms
  by (simp_all add: yearRecord_eq speciesEntry_def applyContribs_fields emptyAgg_def jsum_def)

lemma entry_inactive:
  assumes "i < length sps" "\<not> activeSpecies (sps ! i)"
  shows "yr_perSpecies (yearRecord f m py scheduled sps g) ! i = emptyAgg (sps ! i)"
  using assms by (simp add: yearRecord_eq speciesEntry_def)

lemma forced_zero:
  "c_speciesBiomassKg (contribution True mort (Fin 0) areaHa sp) = Fin 0"
  "c_speciesCO2eT (contribution True mort (Fin 0) areaHa sp) = Fin 0"
  "c_dbh (contribution True mort (Fin 0) areaHa sp) = Fin 0"
  by (simp_all add: contribution_forced)

lemma year_zero_active:
  assumes "buildSchedule st (Fin p) = Some scheduled"
    and "sch \<in> set (filter (activeCohort (Fin p) (Fin 0)) scheduled)"
  shows "ageOf (Fin p) (Fin 0) sch = Fin 0"
proof -
  from assms(1) obtain n where n: "scheduled = map (cohortOf st p) [0 ..< n]"
    using buildSchedule_shape by blast
  have "filter (activeCohort (Fin p) (Fin (real (0::nat)))) scheduled = map (cohortOf st p) [0 ..< min n (Suc 0)]"
    unfolding n by (rule active_built)
  then have "filter (activeCohort (Fin p) (Fin 0)) scheduled = map (cohortOf st p) [0 ..< min n (Suc 0)]"
    by simp
  with assms(2) have "sch \<in> set (map (cohortOf st p) [0 ..< min n (Suc 0)])"
    by simp
  then obtain j where "j < min n (Suc 0)" "sch = cohortOf st p j"
    by auto
  then have "sch = cohortOf st p 0"
    by simp
  then show ?thesis
    using ageOf_cohortOf[of p 0 st 0] by simp
qed

lemma year_zero_totals:
  assumes "buildSchedule st (Fin p) = Some scheduled"
  shows "yr_credits (yearRecord True mort (Fin p) scheduled sps (Fin 0)) = Fin 0"
    and "yr_biomassKg (yearRecord True mort (Fin p) scheduled sps (Fin 0)) = Fin 0"
proof -
  have z: "c \<in> set (yearContributions True mort (Fin p) (Fin 0) scheduled sps)
      \<Longrightarrow> c_speciesCO2eT c = Fin 0 \<and> c_speciesBiomassKg c = Fin 0" for c
    using year_zero_active[OF assms]
    by (auto simp: yearContributions_def forced_zero)
  show "yr_credits (yearRecord True mort (Fin p) scheduled sps (Fin 0)) = Fin 0"
    unfolding yearRecord_eq by (rule jsum_zero) (use z in auto)
  show "yr_biomassKg (yearRecord True mort (Fin p) scheduled sps (Fin 0)) = Fin 0"
    unfolding yearRecord_eq by (rule jsum_zero) (use z in auto)
qed

lemma year_zero_entries:
  assumes "buildSchedule st (Fin p) = Some scheduled" and "i < length sps"
  shows "ps_credits (yr_perSpecies (yearRecord True mort (Fin p) scheduled sps (Fin 0)) ! i) = Fin 0"
    and "ps_biomassKg (yr_perSpecies (yearRecord True mort (Fin p) scheduled sps (Fin 0)) ! i) = Fin 0"
proof -
  have z: "c \<in> set (cohortContributions True mort (Fin p) (Fin 0) scheduled (sps ! i))
      \<Longrightarrow> c_speciesCO2eT c = Fin 0 \<and> c_speciesBiomassKg c = Fin 0" for c
    using year_zero_active[OF assms(1)]
    by (auto simp: cohortContributions_def forced_zero)
  show "ps_credits (yr_perSpecies (yearRecord True mort (Fin p) scheduled sps (Fin 0)) ! i) = Fin 0"
  proof (cases "activeSpecies (sps ! i)")
    case True
    show ?thesis
      unfolding entry_fields(1)[OF assms(2) True] by (rule jsum_zero) (use z in auto)
  next
    case False
    then show ?thesis by (simp add: entry_inactive[OF assms(2)] emptyAgg_def)
  qed
  show "ps_biomassKg (yr_perSpecies (yearRecord True mort (Fin p) scheduled sps (Fin 0)) ! i) = Fin 0"
  proof (cases "activeSpecies (sps ! i)")
    case True
    show ?thesis
      unfolding entry_fields(2)[OF assms(2) True] by (rule jsum_zero) (use z in auto)
  next
    case False
    then show ?thesis by (simp add: entry_inactive[OF assms(2)] emptyAgg_def)
  qed
qed

lemma planting_year_dbh:
  assumes "buildSchedule st (Fin p) = Some scheduled" and "k < length scheduled" and "i < length sps"
  shows "ps_dbhCm (yr_perSpecies (yearRecord True mort (Fin p) scheduled sps (Fin (real k))) ! i) = Fin 0"
proof (cases "activeSpecies (sps ! i)")
  case False
  then show ?thesis by (simp add: entry_inactive[OF assms(3)] emptyAgg_def)
next
  case True
  from assms(1) obtain n where n: "scheduled = map (cohortOf st p) [0 ..< n]"
    using buildSchedule_shape by blast
  with assms(2) have kn: "k < n" by simp
  from kn have mn: "min n (Suc k) = Suc k" by simp
  have act: "filter (activeCohort (Fin p) (Fin (real k))) scheduled = map (cohortOf st p) [0 ..< Suc k]"
    unfolding n by (simp only: active_built mn)
  let ?cs = "cohortContributions True mort (Fin p) (Fin (real k)) scheduled (sps ! i)"
  have cs: "?cs = map (\<lambda>sch. contribution True mort (ageOf (Fin p) (Fin (real k)) sch) (sch_areaHa sch) (sps ! i))
                    (map (cohortOf st p) [0 ..< Suc k])"
    by (simp only: cohortContributions_def act)
  then have ne: "?cs \<noteq> []" by simp
  have "last ?cs = contribution True mort (ageOf (Fin p) (Fin (real k)) (cohortOf st p k))
                     (sch_areaHa (cohortOf st p k)) (sps ! i)"
    unfolding cs by (simp add: last_map)
  then have "c_dbh (last ?cs) = Fin 0"
    by (simp add: ageOf_cohortOf forced_zero)
  with ne show ?thesis
    by (simp add: entry_fields(4)[OF assms(3) True])
qed

lemma example_schedule:
  "buildSchedule exampleState (Fin 2025) = Some [cohortOf exampleState 2025 0]"
  by (simp add: buildSchedule_def exampleState_def cohortOf_def areaPlanted_def Let_def)

lemma example_percent: "sp_percent (exampleSetup ! 0) = Fin 100"
  by (simp add: exampleSetup_def setupSpecies_def exampleRow_def Let_def clamp_def parse_defs)

lemma schedule_two:
  "buildSchedule scheduleState (Fin 2025) = Some (map (cohortOf scheduleState 2025) [0 ..< 2])"
  by (simp add: buildSchedule_def scheduleState_def exampleState_def cohortOf_def areaPlanted_def
      scheduledArea_def Let_def clamp_def countBelow_def parse_defs upt_rec)

lemma schedule_two_active:
  "filter (activeCohort (Fin 2025) (Fin (real (Suc 0)))) (map (cohortOf scheduleState 2025) [0 ..< 2])
     = map (cohortOf scheduleState 2025) [0 ..< 2]"
proof -
  have "min 2 (Suc (Suc 0)) = (2::nat)" by simp
  then show ?thesis by (simp only: active_built)
qed

lemma runCalculation_years:
  assumes "parseInt (plantingYear st) = Fin (of_int p)"
    and "parseInt (creditingEndYear st) = Fin (of_int e)"
    and "buildSchedule st (Fin (of_int p)) = Some scheduled"
  shows "yearsOf (runCalculation eng st) =
     map (\<lambda>g. yearRecord (forceYearZeroZero st) (mortalityOf st) (Fin (of_int p)) scheduled
                (map (setupSpecies eng (parseFloat (strOr (defaultGrowthRate st) ''0.2''))) (rows st))
                (Fin (real g)))
       [0 ..< nat (e - p + 1)]"
  using assms by (simp add: runCalculation_def yearsOf_def countUpTo_years Let_def)

lemma validate_example: "validate exampleState = None"
  by (simp add: validate_def validateSchedule_def validateRow_def totalPercent_def exampleState_def
      exampleRow_def falsyStr_def orElse_def Let_def parse_defs)

lemma validate_long: "validate longState = None"
  by (simp add: validate_def validateSchedule_def validateRow_def totalPercent_def longState_def
      exampleState_def exampleRow_def falsyStr_def orElse_def Let_def parse_defs)

lemma parse_overflow: "parseFloat ''1e309'' = PInf"
  by (simp add: parse_defs)

lemma validate_overflow: "validate overflowState = None"
  by (simp add: validate_def validateSchedule_def validateRow_def totalPercent_def overflowState_def
      exampleState_def exampleRow_def falsyStr_def orElse_def Let_def parse_defs)

lemma overflow_schedule:
  "buildSchedule overflowState (Fin (of_int 2025)) = Some [\<lparr>sch_year = Fin 2025, sch_areaHa = Fin 0\<rparr>]"
  by (simp add: buildSchedule_def overflowState_def exampleState_def orElse_def Let_def parse_defs)

lemma overflow_trees:
  "c_surviving (contribution False (Fin 0) (Fin (real g)) (Fin 0)
     (setupSpecies exampleEngine gr (exampleRow\<lparr>r_inputMode := Density, r_density := Some ''1e309''\<rparr>)))
   = NaN"
  by (simp add: contribution_def setupSpecies_def exampleRow_def clamp_def Let_def parse_defs)

lemma rewrite_broken: "rewriteExpr (trim ''1+'') = ''1+''"
  by (simp add: trim_def isWhiteSpace_def rewriteExpr_def matchCall_def lowerAscii_def isWordChar_def isDigit_def)

lemma find_first:
  "\<exists>x \<in> set xs. P x \<Longrightarrow> find P xs = Some (xs ! length (takeWhile (\<lambda>x. \<not> P x) xs))"
  by (induction xs) auto

lemma takeWhile_stops: "i < length xs \<Longrightarrow> \<not> P (xs ! i) \<Longrightarrow> length (takeWhile P xs) \<le> i"
proof (induction xs arbitrary: i)
  case Nil
  then show ?case by simp
next
  case (Cons x xs)
  then show ?case by (cases i) auto
qed

lemma firstWithId_le: "i < length rs \<Longrightarrow> firstWithId rs (r_id (rs ! i)) \<le> i"
  unfolding firstWithId_def by (rule takeWhile_stops) simp_all

lemma firstWithId_id:
  assumes "i < length rs"
  shows "r_id (rs ! firstWithId rs (r_id (rs ! i))) = r_id (rs ! i)"
proof -
  from firstWithId_le[OF assms] assms
  have "length (takeWhile (\<lambda>r. r_id r \<noteq> r_id (rs ! i)) rs) < length rs"
    by (simp add: firstWithId_def)
  from nth_length_takeWhile[OF this] show ?thesis
    by (simp add: firstWithId_def)
qed

lemma firstWithId_own:
  assumes "i < length rs" and "\<forall>k < i. r_id (rs ! k) \<noteq> r_id (rs ! i)"
  shows "firstWithId rs (r_id (rs ! i)) = i"
proof (rule ccontr)
  assume "firstWithId rs (r_id (rs ! i)) \<noteq> i"
  with firstWithId_le[OF assms(1)] have "firstWithId rs (r_id (rs ! i)) < i" by simp
  with assms(2) firstWithId_id[OF assms(1)] show False by blast
qed

lemma speciesCredits_first:
  assumes "i < length rs"
  shows "speciesCredits (r_id (rs ! i)) (yearRecord f m py scheduled (map (setupSpecies eng gr) rs) g)
       = ps_credits (yr_perSpecies (yearRecord f m py scheduled (map (setupSpecies eng gr) rs) g)
                      ! firstWithId rs (r_id (rs ! i)))"
proof -
  let ?E = "\<lambda>r. speciesEntry f m py g scheduled (setupSpecies eng gr r)"
  let ?ps = "map ?E rs"
  let ?P = "\<lambda>p. ps_speciesId p = r_id (rs ! i)"
  have ps: "yr_perSpecies (yearRecord f m py scheduled (map (setupSpecies eng gr) rs) g) = ?ps"
    by (simp add: yearRecord_eq)
  have tw: "takeWhile (\<lambda>x. \<not> ?P x) ?ps = map ?E (takeWhile (\<lambda>r. r_id r \<noteq> r_id (rs ! i)) rs)"
    by (simp add: takeWhile_map comp_def)
  have "\<exists>x \<in> set ?ps. ?P x"
    using assms by (auto intro!: bexI[of _ "rs ! i"])
  from find_first[OF this] have "find ?P ?ps = Some (?ps ! firstWithId rs (r_id (rs ! i)))"
    unfolding tw by (simp add: firstWithId_def)
  then show ?thesis
    by (simp add: speciesCredits_def ps)
qed

lemma parse_rounds: "parseInt ''9007199254740993'' = Fin 9007199254740992"
  by (simp add: parseInt_def splitSign_def isWhiteSpace_def isDigit_def digitsValue_def
      digitValue_def natToNumber_def roundNat_def bitLength.simps Let_def)

lemma digits_zeros:
  "foldl (\<lambda>a c. 10 * a + digitValue c) a (replicate n (CHR ''0'')) = a * 10 ^ n"
  by (induction n arbitrary: a) (simp_all add: digitValue_def)

lemma hugeYear_value: "digitsValue hugeYear = 10 ^ 309"
proof -
  have "digitValue (CHR ''1'') = 1"
    by (simp add: digitValue_def)
  then show ?thesis
    by (simp add: digitsValue_def hugeYear_def digits_zeros)
qed

lemma hugeYear_digits:
  "hugeYear \<noteq> []"
  "splitSign (dropWhile isWhiteSpace hugeYear) = (False, hugeYear)"
  "takeWhile isDigit hugeYear = hugeYear"
  by (simp_all add: hugeYear_def splitSign_def isWhiteSpace_def isDigit_def)

lemma parse_hugeYear: "parseInt hugeYear = PInf"
  by (simp add: parseInt_def hugeYear_digits hugeYear_value natToNumber_def)

lemma validate_huge: "validate hugeState = None"
  by (simp add: validate_def validateSchedule_def validateRow_def totalPercent_def hugeState_def
      exampleState_def exampleRow_def falsyStr_def orElse_def Let_def parse_hugeYear hugeYear_digits
      parseFloat_def splitSign_def isWhiteSpace_def isDigit_def
  digitsValue_def digitValue_def exponentPart_def scale10_def toNumber_def strOr_def optOr_def)


lemma parse_2025: "parseInt ''2025'' = Fin 2025"
  by (simp add: parse_defs)

lemma validate_late: "validate lateState = None"
  by (simp add: validate_def validateSchedule_def validateRow_def totalPercent_def lateState_def
      exampleState_def exampleRow_def falsyStr_def orElse_def Let_def parse_hugeYear hugeYear_digits
      parse_2025 parseFloat_def splitSign_def isWhiteSpace_def isDigit_def
      digitsValue_def digitValue_def exponentPart_def scale10_def toNumber_def strOr_def optOr_def)

lemma run_huge:
  "map_option yearlyBreakdown (resultOf (runCalculation exampleEngine hugeState)) = Some []"
proof -
  have "parseInt (plantingYear hugeState) = PInf" "parseInt (creditingEndYear hugeState) = PInf"
    by (simp_all add: hugeState_def parse_hugeYear)
  moreover have "\<exists>scheduled. buildSchedule hugeState PInf = Some scheduled"
    using buildSchedule_Some by blast
  ultimately show ?thesis
    by (auto simp: runCalculation_def resultOf_def countUpTo_def minus_jsnum_def Let_def)
qed

lemma run_late: "runCalculation exampleEngine lateState = Hangs"
proof -
  have "parseInt (plantingYear lateState) = Fin 2025"
    by (simp add: lateState_def exampleState_def parse_defs)
  moreover have "parseInt (creditingEndYear lateState) = PInf"
    by (simp add: lateState_def parse_hugeYear)
  moreover have "\<exists>scheduled. buildSchedule lateState (Fin 2025) = Some scheduled"
    using buildSchedule_Some by blast
  ultimately show ?thesis
    by (auto simp: runCalculation_def countUpTo_def minus_jsnum_def Let_def)
qed

lemma runCalculation_summary:
  assumes "parseInt (plantingYear st) = Fin (of_int p)"
    and "parseInt (creditingEndYear st) = Fin (of_int e)"
    and "buildSchedule st (Fin (of_int p)) = Some scheduled"
  shows "summaryOf (runCalculation eng st) =
     map (summarise (yearsOf (runCalculation eng st)))
       (map (setupSpecies eng (parseFloat (strOr (defaultGrowthRate st) ''0.2''))) (rows st))"
  using assms by (simp add: runCalculation_def yearsOf_def summaryOf_def countUpTo_years Let_def)

lemma validate_twin: "validate twinState = None"
  by (simp add: validate_def validateSchedule_def validateRow_def totalPercent_def twinState_def
      twinRowA_def twinRowB_def exampleState_def falsyStr_def orElse_def Let_def parse_defs)

lemma twin_schedule:
  "buildSchedule twinState (Fin 2025) = Some [\<lparr>sch_year = Fin 2025, sch_areaHa = Fin 1\<rparr>]"
  by (simp add: buildSchedule_def twinState_def exampleState_def Let_def orElse_def parse_defs)

lemma twin_contribution:
  "c_speciesCO2eT (contribution False (Fin 0) (Fin 0) (Fin 1)
      (setupSpecies exampleEngine (parseFloat ''0.2'') twinRowA)) = kgBiomassToTonsCO2e (Fin 150)"
  "c_speciesCO2eT (contribution False (Fin 0) (Fin 0) (Fin 1)
      (setupSpecies exampleEngine (parseFloat ''0.2'') twinRowB)) = kgBiomassToTonsCO2e (Fin 50)"
  by (simp_all add: contribution_def setupSpecies_def twinRowA_def twinRowB_def clamp_def Let_def
      biomassFn_def eval_D falsyStr_def orElse_def parse_defs)

lemma twin_active:
  "activeSpecies (setupSpecies exampleEngine gr twinRowA)"
  "activeSpecies (setupSpecies exampleEngine gr twinRowB)"
  by (simp_all add: activeSpecies_def setupSpecies_def twinRowA_def twinRowB_def clamp_def Let_def
      parse_defs)

lemma twin_years:
  "yearsOf (runCalculation exampleEngine twinState) =
     [yearRecord False (Fin 0) (Fin 2025) [\<lparr>sch_year = Fin 2025, sch_areaHa = Fin 1\<rparr>]
        [setupSpecies exampleEngine (parseFloat ''0.2'') twinRowA,
         setupSpecies exampleEngine (parseFloat ''0.2'') twinRowB] (Fin 0)]"
proof -
  have p: "parseInt (plantingYear twinState) = Fin (of_int 2025)"
    by (simp add: twinState_def exampleState_def parse_defs)
  have e: "parseInt (creditingEndYear twinState) = Fin (of_int 2025)"
    by (simp add: twinState_def exampleState_def parse_defs)
  have s: "buildSchedule twinState (Fin (of_int 2025)) = Some [\<lparr>sch_year = Fin 2025, sch_areaHa = Fin 1\<rparr>]"
    using twin_schedule by simp
  have m: "mortalityOf twinState = Fin 0"
    by (simp add: mortalityOf_def twinState_def exampleState_def clamp_def Let_def parse_defs)
  have f: "forceYearZeroZero twinState = False" "rows twinState = [twinRowA, twinRowB]"
    "strOr (defaultGrowthRate twinState) ''0.2'' = ''0.2''"
    by (simp_all add: twinState_def exampleState_def strOr_def)
  show ?thesis
    unfolding runCalculation_years[OF p e s] m f by simp
qed

lemma twin_entries:
  "map entryCredits (yearsOf (runCalculation exampleEngine twinState))
     = [[kgBiomassToTonsCO2e (Fin 150), kgBiomassToTonsCO2e (Fin 50)]]"
  unfolding twin_years
  by (simp add: entryCredits_def yearRecord_eq speciesEntry_def twin_active applyContribs_fields
      emptyAgg_def cohortContributions_def activeCohort_def ageOf_def twin_contribution
      kgBiomassToTonsCO2e_def)

lemma twin_summary:
  "map ss_totalCredits (summaryOf (runCalculation exampleEngine twinState))
     = [kgBiomassToTonsCO2e (Fin 150), kgBiomassToTonsCO2e (Fin 150)]"
proof -
  have p: "parseInt (plantingYear twinState) = Fin (of_int 2025)"
    by (simp add: twinState_def exampleState_def parse_defs)
  have e: "parseInt (creditingEndYear twinState) = Fin (of_int 2025)"
    by (simp add: twinState_def exampleState_def parse_defs)
  have s: "buildSchedule twinState (Fin (of_int 2025)) = Some [\<lparr>sch_year = Fin 2025, sch_areaHa = Fin 1\<rparr>]"
    using twin_schedule by simp
  have f: "rows twinState = [twinRowA, twinRowB]"
    by (simp add: twinState_def exampleState_def)
  have ids: "r_id twinRowA = ''sp1''" "r_id twinRowB = ''sp1''"
    by (simp_all add: twinRowA_def twinRowB_def)
  show ?thesis
    unfolding runCalculation_summary[OF p e s] f twin_years
    by (simp add: summarise_def speciesCredits_def ids yearRecord_eq speciesEntry_def twin_active
        applyContribs_fields emptyAgg_def cohortContributions_def activeCohort_def ageOf_def
        twin_contribution kgBiomassToTonsCO2e_def)
qed

lemma notNegative_iff:
  "notNegative v \<longleftrightarrow> v = NaN \<or> v = PInf \<or> (\<exists>x. v = Fin x \<and> 0 \<le> x)"
  by (cases v) (auto simp: notNegative_def)

lemma notNegative_simps [simp]:
  "notNegative NaN" "notNegative PInf" "\<not> notNegative NInf" "notNegative (Fin x) \<longleftrightarrow> 0 \<le> x"
  by (simp_all add: notNegative_def)

lemma notNegative_add: "notNegative a \<Longrightarrow> notNegative b \<Longrightarrow> notNegative (a + b)"
  by (cases a; cases b) auto

lemma notNegative_mult: "notNegative a \<Longrightarrow> notNegative b \<Longrightarrow> notNegative (a * b)"
  by (cases a; cases b) auto

lemma notNegative_div: "notNegative a \<Longrightarrow> 0 < c \<Longrightarrow> notNegative (a / Fin c)"
  by (cases a) auto

lemma notNegative_foldl:
  "notNegative a \<Longrightarrow> (\<And>x. x \<in> set xs \<Longrightarrow> notNegative x) \<Longrightarrow> notNegative (foldl (+) a xs)"
  by (induction xs arbitrary: a) (auto simp: notNegative_add)

lemma notNegative_jsum: "(\<And>x. x \<in> set xs \<Longrightarrow> notNegative x) \<Longrightarrow> notNegative (jsum xs)"
  unfolding jsum_def by (rule notNegative_foldl) simp_all

lemma notNegative_max: "notNegative (Math_max (Fin 0) x)"
  by (cases x) auto

lemma notNegative_clamp: "0 \<le> hi \<Longrightarrow> notNegative (clamp x (Fin 0) (Fin hi))"
  by (cases x) (auto simp: clamp_def)

lemma notNegative_exp: "notNegative (Math_exp x)"
  by (cases x) auto

lemma notNegative_allometry: "notNegative (defaultAllometryBiomassKg D region)"
  by (simp add: defaultAllometryBiomassKg_def notNegative_exp)

lemma notNegative_biomassFn: "notNegative (biomassFn eng r D)"
  using notNegative_allometry[of D "r_region r"]
  by (auto simp: biomassFn_def Let_def notNegative_def)

lemma notNegative_kg: "notNegative x \<Longrightarrow> notNegative (kgBiomassToTonsCO2e x)"
  by (cases x) (auto simp: kgBiomassToTonsCO2e_def)

lemma notNegative_density: "notNegative (densityFromSpacing s)"
  by (cases s) (auto simp: densityFromSpacing_def)

lemma notNegative_powFinite: "0 \<le> x \<Longrightarrow> notNegative (powFinite x y)"
  by (auto simp: powFinite_def)

lemma notNegative_pow:
  assumes "b = NaN \<or> (\<exists>x. b = Fin x \<and> 0 \<le> x \<and> x \<le> 1)"
  shows "notNegative (Math_pow b age)"
  using assms by (cases age) (auto simp: notNegative_powFinite)

lemma notNegative_survival: "notNegative (Math_pow (Fin 1 - mortalityOf st) age)"
proof (rule notNegative_pow)
  from mortalityOf_range[of st]
  show "Fin 1 - mortalityOf st = NaN \<or> (\<exists>x. Fin 1 - mortalityOf st = Fin x \<and> 0 \<le> x \<and> x \<le> 1)"
    by (auto simp: minus_jsnum_def)
qed

lemma notNegative_setup:
  "notNegative (sp_percent (setupSpecies eng gr r))"
  "notNegative (sp_densityHa (setupSpecies eng gr r))"
  "notNegative (sp_biomassFn (setupSpecies eng gr r) D)"
  by (simp_all add: setupSpecies_def Let_def notNegative_clamp notNegative_max notNegative_density
      notNegative_biomassFn)

lemma notNegative_contribution:
  assumes "notNegative areaHa"
  shows "notNegative (c_surviving (contribution force (mortalityOf st) age areaHa (setupSpecies eng gr r)))"
    and "notNegative (c_speciesBiomassKg (contribution force (mortalityOf st) age areaHa (setupSpecies eng gr r)))"
    and "notNegative (c_speciesCO2eT (contribution force (mortalityOf st) age areaHa (setupSpecies eng gr r)))"
proof -
  let ?sp = "setupSpecies eng gr r"
  have s: "notNegative (sp_percent ?sp / Fin 100 * areaHa * sp_densityHa ?sp
              * Math_pow (Fin 1 - mortalityOf st) age)"
    by (intro notNegative_mult notNegative_div notNegative_setup notNegative_survival assms) simp
  have b: "notNegative (sp_biomassFn ?sp D * (sp_percent ?sp / Fin 100 * areaHa * sp_densityHa ?sp
              * Math_pow (Fin 1 - mortalityOf st) age))" for D
    by (intro notNegative_mult notNegative_setup s)
  show "notNegative (c_surviving (contribution force (mortalityOf st) age areaHa ?sp))"
    using s by (simp add: contribution_def Let_def)
  show 2: "notNegative (c_speciesBiomassKg (contribution force (mortalityOf st) age areaHa ?sp))"
    using b by (simp add: contribution_def Let_def)
  have "c_speciesCO2eT (contribution force (mortalityOf st) age areaHa ?sp)
      = kgBiomassToTonsCO2e (c_speciesBiomassKg (contribution force (mortalityOf st) age areaHa ?sp))"
    by (simp add: contribution_def Let_def)
  with 2 show "notNegative (c_speciesCO2eT (contribution force (mortalityOf st) age areaHa ?sp))"
    by (simp add: notNegative_kg)
qed

lemma notNegative_schedule:
  assumes "buildSchedule st py = Some scheduled" and "sch \<in> set scheduled"
  shows "notNegative (sch_areaHa sch)"
  using assms by (auto simp: buildSchedule_def Let_def notNegative_max split: if_splits)

lemma notNegative_yearRecord:
  assumes "\<And>sch. sch \<in> set scheduled \<Longrightarrow> notNegative (sch_areaHa sch)"
  shows "recordNotNegative (yearRecord force (mortalityOf st) py scheduled
           (map (setupSpecies eng gr) (rows st)) g)"
proof -
  let ?sps = "map (setupSpecies eng gr) (rows st)"
  let ?d = "yearRecord force (mortalityOf st) py scheduled ?sps g"
  note C = notNegative_contribution[OF assms]
  have yc: "c \<in> set (yearContributions force (mortalityOf st) py g scheduled ?sps)
      \<Longrightarrow> notNegative (c_surviving c) \<and> notNegative (c_speciesBiomassKg c) \<and> notNegative (c_speciesCO2eT c)" for c
    unfolding yearContributions_def using C by auto
  have cc: "c \<in> set (cohortContributions force (mortalityOf st) py g scheduled (setupSpecies eng gr r))
      \<Longrightarrow> notNegative (c_surviving c) \<and> notNegative (c_speciesBiomassKg c) \<and> notNegative (c_speciesCO2eT c)" for c r
    unfolding cohortContributions_def using C by auto
  have 1: "notNegative (yr_credits ?d)"
    unfolding yearRecord_eq by (rule notNegative_jsum) (use yc in auto)
  have 2: "notNegative (yr_biomassKg ?d)"
    unfolding yearRecord_eq by (rule notNegative_jsum) (use yc in auto)
  have 3: "notNegative (yr_survivingTrees ?d)"
    unfolding yearRecord_eq by (rule notNegative_jsum) (use yc in auto)
  have e: "entryNotNegative (speciesEntry force (mortalityOf st) py g scheduled (setupSpecies eng gr r))" for r
  proof (cases "activeSpecies (setupSpecies eng gr r)")
    case False
    then show ?thesis
      by (simp add: speciesEntry_def entryNotNegative_def emptyAgg_def)
  next
    case True
    then show ?thesis
      using cc[of _ r]
      by (auto simp: speciesEntry_def entryNotNegative_def applyContribs_fields emptyAgg_def
          intro!: notNegative_foldl)
  qed
  have 4: "list_all entryNotNegative (yr_perSpecies ?d)"
    unfolding yearRecord_eq using e by (auto simp: list_all_iff)
  from 1 2 3 4 show ?thesis by (simp add: recordNotNegative_def)
qed

lemma notNegative_speciesCredits:
  "recordNotNegative d \<Longrightarrow> notNegative (speciesCredits sid d)"
  by (auto simp: speciesCredits_def recordNotNegative_def entryNotNegative_def list_all_iff
      find_Some_iff split: option.splits)

lemma runCalculation_SetCalc:
  assumes "runCalculation eng st = SetCalc res"
  shows "\<exists>scheduled gs.
      buildSchedule st (parseInt (plantingYear st)) = Some scheduled
    \<and> yearlyBreakdown res =
        map (\<lambda>g. yearRecord (forceYearZeroZero st) (mortalityOf st) (parseInt (plantingYear st)) scheduled
               (map (setupSpecies eng (parseFloat (strOr (defaultGrowthRate st) ''0.2''))) (rows st))
               (Fin (real g))) gs
    \<and> totalCredits res = jsum (map yr_credits (yearlyBreakdown res))
    \<and> speciesSummary res = map (summarise (yearlyBreakdown res))
        (map (setupSpecies eng (parseFloat (strOr (defaultGrowthRate st) ''0.2''))) (rows st))"
  using assms
  by (auto simp: runCalculation_def Let_def jsum_map split: option.splits)

lemma runCalculation_ends:
  assumes "parseInt (plantingYear st) = Fin (of_int p)"
    and "parseInt (creditingEndYear st) = Fin (of_int e)"
  shows "\<exists>res. runCalculation eng st = SetCalc res"
proof -
  obtain scheduled where "buildSchedule st (Fin (of_int p)) = Some scheduled"
    using buildSchedule_Some by blast
  with assms show ?thesis
    by (simp add: runCalculation_def countUpTo_years Let_def)
qed

section \<open>The claims\<close>




text \<open>
  Claim C2, as amended. For a finite positive diameter the default allometry is
  \<open>exp (-1.996 + 2.32 ln D)\<close> in the dry region and \<open>exp (-2.134 + 2.530 ln D)\<close> in the moist
  one; it is 0 when the diameter is at most 0 (minus infinity included) or NaN; at plus
  infinity it is plus infinity, not 0: the guard tests \<^verbatim>\<open>isNaN\<close>, not finiteness.
\<close>

theorem C2_default_allometry:
  "(0 < x \<longrightarrow> defaultAllometryBiomassKg (Fin x) Dry = Fin (exp (- 1.996 + 2.32 * ln x)))
   \<and> (0 < x \<longrightarrow> defaultAllometryBiomassKg (Fin x) Moist = Fin (exp (- 2.134 + 2.530 * ln x)))
   \<and> (D \<le> Fin 0 \<or> isNaN D \<longrightarrow> defaultAllometryBiomassKg D region = Fin 0)
   \<and> defaultAllometryBiomassKg PInf region = PInf"
  using defaultAllometry_pos_dry[of x] defaultAllometry_pos_moist[of x]
    defaultAllometry_zero[of D region] defaultAllometry_PInf[of region]
  by blast

theorem C2_default_allometry_witness:
  "defaultAllometryBiomassKg (Fin 10) Dry = Fin (exp (- 1.996 + 2.32 * ln 10))
   \<and> defaultAllometryBiomassKg (Fin 10) Moist = Fin (exp (- 2.134 + 2.530 * ln 10))
   \<and> defaultAllometryBiomassKg (Fin (- 1)) Moist = Fin 0
   \<and> defaultAllometryBiomassKg NaN Moist = Fin 0"
proof -
  have pos: "(0::real) < 10" by simp
  have neg: "Fin (- 1) \<le> Fin 0 \<or> isNaN (Fin (- 1))" by simp
  have nan: "NaN \<le> Fin 0 \<or> isNaN NaN" by simp
  from C2_default_allometry[of 10 "Fin (- 1)" Moist] C2_default_allometry[of 10 NaN Moist] pos neg nan
  show ?thesis by blast
qed

theorem C2_infinite_diameter_counterexample:
  "\<not> isFinite PInf \<and> defaultAllometryBiomassKg PInf Dry \<noteq> Fin 0"
  by (simp add: defaultAllometry_PInf)

text \<open>
  Claim C5. The biomass function stored for a species is \<open>biomassFn\<close>. At every diameter
  it gives the value of the custom equation when the row asks for one, the equation is
  not empty and the evaluator returns a finite number that is not negative; in every
  other case (no custom equation, the invalid sentinel, which also stands for a thrown
  error and a non-finite value, or a negative value) it gives the default allometry of
  the row's region at that diameter. The evaluator has no third kind of result.
\<close>

theorem C5_biomass_fallback:
  "sp_biomassFn (setupSpecies eng defaultGR r) = biomassFn eng r
   \<and> (r_useCustomEq r = Some True \<and> r_customEquation r = Some e \<and> e \<noteq> []
        \<and> evalBiomassExpr eng D e = Fin v \<and> 0 \<le> v
        \<longrightarrow> biomassFn eng r D = Fin v)
   \<and> (r_useCustomEq r \<noteq> Some True \<or> falsyStr (r_customEquation r)
        \<or> evalBiomassExpr eng D (optOr (r_customEquation r) []) = NaN
        \<or> (\<exists>u. evalBiomassExpr eng D (optOr (r_customEquation r) []) = Fin u \<and> u < 0)
        \<longrightarrow> biomassFn eng r D = defaultAllometryBiomassKg D (r_region r))
   \<and> (eng (''return ('' @ rewriteExpr (trim (optOr (r_customEquation r) [])) @ '');'') D = Throws
        \<longrightarrow> biomassFn eng r D = defaultAllometryBiomassKg D (r_region r))
   \<and> (evalBiomassExpr eng D e = NaN \<or> (\<exists>u. evalBiomassExpr eng D e = Fin u))"
proof -
  have 1: "sp_biomassFn (setupSpecies eng defaultGR r) = biomassFn eng r"
    by (simp add: setupSpecies_def Let_def)
  have 4: "eng (''return ('' @ rewriteExpr (trim (optOr (r_customEquation r) [])) @ '');'') D = Throws
        \<longrightarrow> biomassFn eng r D = defaultAllometryBiomassKg D (r_region r)"
    using evalBiomassExpr_throws[of eng "optOr (r_customEquation r) []" D] biomassFn_default[of r eng D]
    by blast
  from 1 4 biomassFn_custom[of r e eng D v] biomassFn_default[of r eng D] evalBiomassExpr_cases[of eng D e]
  show ?thesis by blast
qed

theorem C5_biomass_fallback_witness:
  "biomassFn exampleEngine customRow (Fin 2) = Fin 2
   \<and> biomassFn exampleEngine customRow (Fin (- 1)) = defaultAllometryBiomassKg (Fin (- 1)) Dry
   \<and> biomassFn exampleEngine exampleRow (Fin 2) = defaultAllometryBiomassKg (Fin 2) Dry
   \<and> exampleEngine ''return (1+);'' (Fin 2) = Throws
   \<and> biomassFn exampleEngine brokenRow (Fin 2) = defaultAllometryBiomassKg (Fin 2) Dry"
proof -
  have a: "r_useCustomEq customRow = Some True \<and> r_customEquation customRow = Some ''D'' \<and> ''D'' \<noteq> []
      \<and> evalBiomassExpr exampleEngine (Fin 2) ''D'' = Fin 2 \<and> (0::real) \<le> 2"
    by (simp add: customRow_def eval_D)
  have b: "\<exists>u. evalBiomassExpr exampleEngine (Fin (- 1)) (optOr (r_customEquation customRow) []) = Fin u \<and> u < 0"
    by (simp add: customRow_def eval_D optOr_def strOr_def)
  have c: "r_useCustomEq exampleRow \<noteq> Some True"
    by (simp add: exampleRow_def)
  have t: "exampleEngine ''return (1+);'' (Fin 2) = Throws"
    by (simp add: exampleEngine_def)
  have t': "exampleEngine (''return ('' @ rewriteExpr (trim (optOr (r_customEquation brokenRow) [])) @ '');'') (Fin 2) = Throws"
    by (simp add: brokenRow_def optOr_def strOr_def rewrite_broken exampleEngine_def)
  have r1: "r_region customRow = Dry" "r_region exampleRow = Dry" "r_region brokenRow = Dry"
    by (simp_all add: customRow_def exampleRow_def brokenRow_def)
  from C5_biomass_fallback[of exampleEngine "Fin 0.2" customRow "''D''" "Fin 2" 2] a
  have 1: "biomassFn exampleEngine customRow (Fin 2) = Fin 2" by blast
  from C5_biomass_fallback[of exampleEngine "Fin 0.2" customRow "''D''" "Fin (- 1)" 2] b
  have 2: "biomassFn exampleEngine customRow (Fin (- 1)) = defaultAllometryBiomassKg (Fin (- 1)) (r_region customRow)"
    by blast
  from C5_biomass_fallback[of exampleEngine "Fin 0.2" exampleRow "''D''" "Fin 2" 2] c
  have 3: "biomassFn exampleEngine exampleRow (Fin 2) = defaultAllometryBiomassKg (Fin 2) (r_region exampleRow)"
    by blast
  from C5_biomass_fallback[of exampleEngine "Fin 0.2" brokenRow "''D''" "Fin 2" 2] t'
  have 4: "biomassFn exampleEngine brokenRow (Fin 2) = defaultAllometryBiomassKg (Fin 2) (r_region brokenRow)"
    by blast
  from 1 2 3 4 t r1 show ?thesis by simp
qed



text \<open>
  Claim C7, as amended. The growth rate of a species is \<^verbatim>\<open>parseFloat(r.growthRateCmYr || '') || defaultGR\<close>:
  the species' own value when it parses to a number other than zero, a negative one
  included, and the default when the field is absent or empty, does not parse, or
  parses to zero.
\<close>

theorem C7_growth_rate:
  "sp_growthRateCmYr (setupSpecies eng defaultGR r)
     = orElse (parseFloat (optOr (r_growthRateCmYr r) [])) defaultGR
   \<and> (parseFloat (optOr (r_growthRateCmYr r) []) = Fin x \<and> x \<noteq> 0
        \<longrightarrow> sp_growthRateCmYr (setupSpecies eng defaultGR r) = Fin x)
   \<and> (falsyStr (r_growthRateCmYr r)
        \<or> parseFloat (optOr (r_growthRateCmYr r) []) = NaN
        \<or> parseFloat (optOr (r_growthRateCmYr r) []) = Fin 0
        \<longrightarrow> sp_growthRateCmYr (setupSpecies eng defaultGR r) = defaultGR)"
proof -
  have "falsyStr (r_growthRateCmYr r) \<Longrightarrow> parseFloat (optOr (r_growthRateCmYr r) []) = NaN"
    by (auto simp: falsyStr_def optOr_def strOr_def parseFloat_empty)
  then show ?thesis
    by (auto simp: setup_growth orElse_def)
qed

theorem C7_growth_rate_witness:
  "sp_growthRateCmYr (setupSpecies exampleEngine (Fin 0.2) negativeGrowthRow) = Fin (- 1)
   \<and> sp_growthRateCmYr (setupSpecies exampleEngine (Fin 0.2) (exampleRow\<lparr>r_growthRateCmYr := None\<rparr>)) = Fin 0.2"
proof -
  have a: "parseFloat (optOr (r_growthRateCmYr negativeGrowthRow) []) = Fin (- 1) \<and> (- 1 :: real) \<noteq> 0"
    by (simp add: negativeGrowthRow_def exampleRow_def parse_defs)
  have b: "falsyStr (r_growthRateCmYr (exampleRow\<lparr>r_growthRateCmYr := None\<rparr>))"
    by (simp add: falsyStr_def)
  from C7_growth_rate[of exampleEngine "Fin 0.2" negativeGrowthRow "- 1"] a
  have 1: "sp_growthRateCmYr (setupSpecies exampleEngine (Fin 0.2) negativeGrowthRow) = Fin (- 1)"
    by blast
  from C7_growth_rate[of exampleEngine "Fin 0.2" "exampleRow\<lparr>r_growthRateCmYr := None\<rparr>"] b
  have 2: "sp_growthRateCmYr (setupSpecies exampleEngine (Fin 0.2) (exampleRow\<lparr>r_growthRateCmYr := None\<rparr>)) = Fin 0.2"
    by blast
  from 1 2 show ?thesis by blast
qed

theorem C7_negative_rate_counterexample:
  "r_growthRateCmYr negativeGrowthRow = Some ''-1''
   \<and> parseFloat ''-1'' = Fin (- 1)
   \<and> parseFloat (strOr ''0.2'' ''0.2'') = Fin 0.2
   \<and> sp_growthRateCmYr (setupSpecies exampleEngine (parseFloat (strOr ''0.2'' ''0.2'')) negativeGrowthRow)
       = Fin (- 1)"
  by (simp add: negativeGrowthRow_def exampleRow_def setup_growth orElse_def parse_defs)







text \<open>
  Claim C9. The schedule built for a calculation has at most 200 entries, whatever the
  state. The number of modelled years has no bound in \<open>calculate\<close>: the state with the
  years 2000 and 2500 passes the validation and gets 501 year records, while the span the
  page displays for it, which is clamped, is 300.
\<close>

theorem C9_years_not_bounded:
  "(\<forall>st py. \<exists>scheduled. buildSchedule st py = Some scheduled \<and> length scheduled \<le> 200)
   \<and> validate longState = None
   \<and> yearsSpan longState = Fin 300
   \<and> length (yearsOf (calculate exampleEngine longState)) = 501"
proof -
  have p: "parseInt (plantingYear longState) = Fin (of_int 2000)"
    by (simp add: longState_def exampleState_def parse_defs)
  have e: "parseInt (creditingEndYear longState) = Fin (of_int 2500)"
    by (simp add: longState_def exampleState_def parse_defs)
  obtain scheduled where s: "buildSchedule longState (Fin (of_int 2000)) = Some scheduled"
    using buildSchedule_Some by blast
  have "length (yearsOf (runCalculation exampleEngine longState)) = nat (2500 - 2000 + 1)"
    by (simp only: runCalculation_years[OF p e s] length_map length_upt)
  then have 4: "length (yearsOf (calculate exampleEngine longState)) = 501"
    by (simp add: calculate_def validate_long)
  have 3: "yearsSpan longState = Fin 300"
    by (simp add: yearsSpan_def longState_def exampleState_def clamp_def Let_def parse_defs)
  from buildSchedule_Some validate_long 3 4 show ?thesis by blast
qed




end
